theory Spec2Isabelle
  imports Complex_Main "HOL-Library.Multiset"
begin

section \<open>JavaScript values used by the form scripts\<close>

text \<open>
  The form scripts read document fields that may be \<open>undefined\<close>, \<open>null\<close> or a string.
  A field is modelled as \<open>string option\<close>: \<open>None\<close> stands for \<open>undefined\<close>/\<open>null\<close>.
  JavaScript's truthiness of such a value (\<open>!v\<close>, \<open>v || w\<close>) is \<open>truthy\<close>: the empty
  string is falsy, every other string is truthy.
\<close>

definition truthy :: "string option \<Rightarrow> bool" where
  "truthy v = (case v of None \<Rightarrow> False | Some s \<Rightarrow> s \<noteq> [])"


text \<open>
  \<open>String.prototype.toLowerCase\<close> on the ASCII range (status names are ASCII):
  the letters A..Z (codes 65..90) move to a..z, every other character stays.
\<close>

definition to_lower_char :: "char \<Rightarrow> char" where
  "to_lower_char c =
     (let n = (of_char c :: nat) in if 65 \<le> n \<and> n \<le> 90 then char_of (n + 32) else c)"

definition toLowerCase :: "string \<Rightarrow> string" where
  "toLowerCase s = map to_lower_char s"

text \<open>\<open>Array.prototype.join\<close> with a separator.\<close>

fun join :: "string \<Rightarrow> string list \<Rightarrow> string" where
  "join sep [] = []"
| "join sep [x] = x"
| "join sep (x # y # ys) = x @ sep @ join sep (y # ys)"


section \<open>Sales Return: credit note creation (\<open>sales_return.js\<close>)\<close>

text \<open>
  A row of the \<open>items\<close> child table. \<open>qty\<close> is a Float field; a real number stands for
  the finite double (comparison with 0 and negation are exact on doubles).
\<close>

record sales_return_item =
  item_code :: string
  qty :: real
  batch_no :: "string option"

record sales_return_doc =
  sr_name :: string
  sr_customer :: "string option"
  sr_items :: "sales_return_item list option"
  sr_workflow_state :: "string option"
  sr_customer_reference_no :: "string option"
  sr_shipping_address_name :: "string option"
  sr_selling_price_list :: "string option"

text \<open>One line of the Sales Invoice that is inserted.\<close>

record credit_note_item =
  cn_item_code :: string
  cn_qty :: real
  cn_batch_no :: "string option"
  cn_custom_sales_return :: string

record sales_invoice =
  si_naming_series :: string
  si_customer :: "string option"
  si_posting_date :: string
  si_is_return :: nat
  si_items :: "credit_note_item list"
  si_remarks :: string
  si_po_no :: "string option"
  si_shipping_address_name :: "string option"
  si_selling_price_list :: "string option"
  si_select_print_heading :: string

text \<open>
  \<open>refresh\<close>: the button \<open>Create Credit Note\<close> is added when the document is saved and
  its workflow state is not \<open>Credit Note Issued\<close>.
\<close>

definition credit_note_button_shown :: "bool \<Rightarrow> sales_return_doc \<Rightarrow> bool" where
  "credit_note_button_shown is_new d =
     (\<not> is_new \<and> sr_workflow_state d \<noteq> Some ''Credit Note Issued'')"

text \<open>The arrow function of \<open>frm.doc.items.map\<close>.\<close>

definition invoice_item_of :: "string \<Rightarrow> sales_return_item \<Rightarrow> credit_note_item" where
  "invoice_item_of docname row =
     \<lparr> cn_item_code = item_code row,
       cn_qty = (if qty row > 0 then -1 * qty row else qty row),
       cn_batch_no = batch_no row,
       cn_custom_sales_return = docname \<rparr>"

text \<open>
  The click handler of \<open>Create Credit Note\<close>. \<open>Inl msg\<close>: the guard failed, the message
  is shown and nothing is inserted. \<open>Inr inv\<close>: \<open>frappe.client.insert\<close> is called with
  the document \<open>inv\<close>. \<open>today\<close> is \<open>frappe.datetime.now_date()\<close>.
\<close>

definition create_credit_note :: "string \<Rightarrow> sales_return_doc \<Rightarrow> string + sales_invoice" where
  "create_credit_note today d =
     (case sr_items d of
        None \<Rightarrow> Inl ''Please select a customer and add at least one item.''
      | Some rows \<Rightarrow>
          if \<not> truthy (sr_customer d) \<or> length rows = 0
          then Inl ''Please select a customer and add at least one item.''
          else Inr \<lparr> si_naming_series = ''SI-RET-.YY'',
                     si_customer = sr_customer d,
                     si_posting_date = today,
                     si_is_return = 1,
                     si_items = map (invoice_item_of (sr_name d)) rows,
                     si_remarks = ''Credit Note for Sales Return: '' @ sr_name d,
                     si_po_no = sr_customer_reference_no d,
                     si_shipping_address_name = sr_shipping_address_name d,
                     si_selling_price_list = sr_selling_price_list d,
                     si_select_print_heading = ''Credit Note'' \<rparr>)"


section \<open>Fuel Consumption: grouped purchase invoice (\<open>create_purchase_invoice\<close>)\<close>

text \<open>
  A row of \<open>fuel_consumption_details\<close>. \<open>amount_consumed\<close> is the raw field value of type
  \<open>'v\<close>; \<open>flt\<close> (frappe's number coercion, not part of this repository) is a parameter
  \<open>'v \<Rightarrow> 'a\<close>. The numbers \<open>'a\<close> only need \<open>0\<close> and \<open>+\<close>: nothing is assumed about
  the addition, so the sums below are the sums the loop computes, in row order.
\<close>

record 'v fuel_row =
  cost_center :: "string option"
  shared_use_cost_center :: "string option"
  amount_consumed :: 'v




















section \<open>Number formatting (\<open>fmtNumber3\<close>, \<open>fmtCurrency\<close>) and the fuel total\<close>

text \<open>
  A JavaScript number is a finite number, \<open>NaN\<close> or an infinity; the finite numbers are
  of a type \<open>'r\<close>. The values the formatters are called with are numbers, strings,
  \<open>null\<close> and \<open>undefined\<close>.
\<close>

datatype 'r js_number = Finite_number 'r | NaN | Infinity bool

datatype 'r js_value = JNumber "'r js_number" | JString string | JNull | JUndefined

text \<open>
  \<open>num.toLocaleString(undefined, {minimumFractionDigits: 3, maximumFractionDigits: 3})\<close>.
  For a finite number the result is the number written in the locale of the runtime with
  exactly three fraction digits: \<open>Three_fraction_digits x\<close> stands for that string. The
  fraction-digit options do not apply to \<open>NaN\<close> and the infinities: they are rendered as
  the locale's symbols (\<open>NaN\<close>, and the infinity sign with its sign), without fraction
  digits.
\<close>

datatype 'r rendering = Three_fraction_digits 'r | NaN_symbol | Infinity_symbol bool

fun toLocaleString3 :: "'r js_number \<Rightarrow> 'r rendering" where
  "toLocaleString3 (Finite_number x) = Three_fraction_digits x"
| "toLocaleString3 NaN = NaN_symbol"
| "toLocaleString3 (Infinity positive) = Infinity_symbol positive"

text \<open>
  The first line of both formatters, with the global \<open>parseFloat\<close> as a parameter:
  \<open>(typeof val === 'number') ? val :
     (val != null && !isNaN(parseFloat(val)) ? parseFloat(val) : 0)\<close>.
\<close>

definition coerce_number :: "('r js_value \<Rightarrow> 'r::zero js_number) \<Rightarrow> 'r js_value \<Rightarrow> 'r js_number" where
  "coerce_number parseFloat val =
     (case val of
        JNumber n \<Rightarrow> n
      | JString s \<Rightarrow> if parseFloat val \<noteq> NaN then parseFloat val else Finite_number 0
      | JNull \<Rightarrow> Finite_number 0
      | JUndefined \<Rightarrow> Finite_number 0)"

definition fmtNumber3 :: "('r js_value \<Rightarrow> 'r::zero js_number) \<Rightarrow> 'r js_value \<Rightarrow> 'r rendering" where
  "fmtNumber3 parseFloat val = toLocaleString3 (coerce_number parseFloat val)"

text \<open>\<open>fmtCurrency\<close> returns the label and the rendered number; with an empty label the
  result is the rendered number alone.\<close>

definition fmtCurrency ::
  "('r js_value \<Rightarrow> 'r::zero js_number) \<Rightarrow> 'r js_value \<Rightarrow> string option \<Rightarrow> string \<times> 'r rendering" where
  "fmtCurrency parseFloat val cur =
     (let s = toLocaleString3 (coerce_number parseFloat val);
          label = (if cur = Some ''BHD'' then ''BD''
                   else (case cur of None \<Rightarrow> [] | Some c \<Rightarrow> c))
      in (label, s))"

text \<open>
  A cell of the column \<open>Credit\<close> or \<open>Debit\<close> in \<open>show_preview_dialog\<close>:
  \<open>const num = (v != null && !isNaN(parseFloat(v))) ? parseFloat(v) : 0; v = fmtNumber3(num)\<close>.
\<close>

definition preview_amount_cell :: "('r js_value \<Rightarrow> 'r::zero js_number) \<Rightarrow> 'r js_value \<Rightarrow> 'r rendering" where
  "preview_amount_cell parseFloat v =
     (let num = (if v \<noteq> JNull \<and> v \<noteq> JUndefined \<and> parseFloat v \<noteq> NaN
                 then parseFloat v else Finite_number 0)
      in fmtNumber3 parseFloat (JNumber num))"

text \<open>
  \<open>calculate_total_fuel_consumption\<close>: the total is summed over the rows, and the field
  is set (\<open>Some total\<close>) when \<open>flt(frm.doc.total_fuel_consumption, 3) !== flt(total, 3)\<close>.
  \<open>flt\<close> and \<open>flt3\<close>, which is \<open>flt\<close> with precision 3, are frappe's and are parameters.
\<close>

definition calculate_total_fuel_consumption ::
  "('v \<Rightarrow> 'a::{zero,plus}) \<Rightarrow> ('a \<Rightarrow> 'a) \<Rightarrow> 'a \<Rightarrow> 'v fuel_row list \<Rightarrow> 'a option" where
  "calculate_total_fuel_consumption flt flt3 total_fuel_consumption rows =
     (let total = foldl (\<lambda>total row. total + flt (amount_consumed row)) 0 rows
      in if flt3 total_fuel_consumption \<noteq> flt3 total then Some total else None)"

text \<open>What \<open>parseFloat\<close> gives for numbers and for the text \<open>Infinity\<close>; every other text
  stands for one that is not numeric.\<close>

definition example_parseFloat :: "int js_value \<Rightarrow> int js_number" where
  "example_parseFloat v =
     (case v of
        JNumber n \<Rightarrow> n
      | JString s \<Rightarrow> if s = ''Infinity'' then Infinity True else NaN
      | JNull \<Rightarrow> NaN
      | JUndefined \<Rightarrow> NaN)"


section \<open>Run forms: statuses and effects of the button handlers\<close>

text \<open>
  The four values of the Select field \<open>status\<close> of a Run and the strings the scripts
  compare with. On the form, \<open>frm.doc.status\<close> is a string that may be missing.
\<close>

datatype run_status = Draft | Parsed | Imported | Failed

fun status_name :: "run_status \<Rightarrow> string" where
  "status_name Draft = ''Draft''"
| "status_name Parsed = ''Parsed''"
| "status_name Imported = ''Imported''"
| "status_name Failed = ''Failed''"

text \<open>
  What a click handler does, in order: a message box, a request to a server method
  (\<open>frappe.call\<close>, \<open>frm.call\<close>), \<open>frm.reload_doc()\<close>, a dialog, an alert, freezing and
  unfreezing the page, clearing the custom buttons, and the assignment
  \<open>frm.doc.status = s\<close>.
\<close>

datatype effect =
    Msgprint string
  | ServerCall string
  | ReloadDoc
  | ShowDialog string
  | ShowAlert string
  | Freeze string
  | Unfreeze
  | ClearCustomButtons
  | SetStatus string

text \<open>
  The server methods the scripts request. The parse methods read the source files and
  store the parsed rows on the Run (the Statement Run script calls \<open>preview_rows\<close> under
  the comment "re-parse and open dialog" and the freeze message "Parsing statement...");
  the generate methods create the downstream records.
\<close>

definition parse_source :: string where
  "parse_source = ''cnt_tools.cnt_tools.doctype.checkin_run.checkin_run.parse_source''"

definition generate_checkins :: string where
  "generate_checkins = ''cnt_tools.cnt_tools.doctype.checkin_run.checkin_run.generate_checkins''"

definition cr_preview :: string where
  "cr_preview = ''cnt_tools.cnt_tools.doctype.checkin_run.checkin_run.cr_preview''"

definition preview_rows :: string where
  "preview_rows = ''preview_rows''"

definition create_bank_transactions :: string where
  "create_bank_transactions = ''create_bank_transactions''"

definition parse_files :: string where
  "parse_files = ''ajc_tools.ajc_tools.doctype.invoice_run.invoice_run.parse_files''"

definition get_preview_html :: string where
  "get_preview_html = ''ajc_tools.ajc_tools.doctype.invoice_run.invoice_run.get_preview_html''"

definition create_purchase_invoices :: string where
  "create_purchase_invoices = ''ajc_tools.ajc_tools.doctype.invoice_run.invoice_run.create_purchase_invoices''"

definition is_parse_call :: "effect \<Rightarrow> bool" where
  "is_parse_call e = (e = ServerCall parse_source \<or> e = ServerCall preview_rows \<or> e = ServerCall parse_files)"

definition is_generate_call :: "effect \<Rightarrow> bool" where
  "is_generate_call e =
     (e = ServerCall generate_checkins \<or> e = ServerCall create_bank_transactions \<or>
      e = ServerCall create_purchase_invoices)"

fun is_server_call :: "effect \<Rightarrow> bool" where
  "is_server_call (ServerCall m) = True"
| "is_server_call e = False"

fun is_set_status :: "effect \<Rightarrow> bool" where
  "is_set_status (SetStatus s) = True"
| "is_set_status e = False"

text \<open>An effect after which the Run on the form may differ: the document is parsed
  again, reloaded from the server, or its status is assigned.\<close>

definition touches_run :: "effect \<Rightarrow> bool" where
  "touches_run e = (is_parse_call e \<or> is_generate_call e \<or> e = ReloadDoc \<or> is_set_status e)"


section \<open>Checkin Run (\<open>checkin_run.js\<close>)\<close>

text \<open>\<open>cr_source_files\<close> holds the file of each row of the child table \<open>source_files\<close>;
  \<open>None\<close> is a missing table.\<close>

record checkin_run_doc =
  cr_name :: string
  cr_status :: "string option"
  cr_source_files :: "string option list option"

text \<open>\<open>(frm.doc.status || '').toLowerCase()\<close>\<close>

definition cr_status_lower :: "checkin_run_doc \<Rightarrow> string" where
  "cr_status_lower d = toLowerCase (case cr_status d of None \<Rightarrow> [] | Some s \<Rightarrow> s)"

text \<open>\<open>!frm.doc.source_files || !frm.doc.source_files.length\<close>\<close>

definition no_source_files :: "checkin_run_doc \<Rightarrow> bool" where
  "no_source_files d = (case cr_source_files d of None \<Rightarrow> True | Some rows \<Rightarrow> length rows = 0)"

text \<open>
  The functions that add buttons return the labels they add. \<open>add_parse_button\<close>
  returns early for \<open>imported\<close> and \<open>parsed\<close>; \<open>add_generate_action\<close> returns early unless
  the status is \<open>parsed\<close>; \<open>add_preview_button\<close> always adds its button.
\<close>

definition add_parse_button :: "checkin_run_doc \<Rightarrow> string list" where
  "add_parse_button d =
     (let status = cr_status_lower d
      in if status = ''imported'' \<or> status = ''parsed'' then [] else [''Parse Data''])"

definition add_preview_button :: "checkin_run_doc \<Rightarrow> string list" where
  "add_preview_button d = [''Preview Data'']"

definition add_generate_action :: "checkin_run_doc \<Rightarrow> string list" where
  "add_generate_action d =
     (let status = cr_status_lower d
      in if status \<noteq> ''parsed'' then [] else [''Create Employee Checkins''])"

text \<open>The buttons of the first \<open>refresh\<close> handler, in the order they are added.\<close>

definition checkin_run_buttons :: "checkin_run_doc \<Rightarrow> string list" where
  "checkin_run_buttons d = add_parse_button d @ add_preview_button d @ add_generate_action d"

text \<open>The click handler of \<open>Parse Data\<close>: the request's callback reloads the document.\<close>

definition parse_data_click :: "checkin_run_doc \<Rightarrow> effect list" where
  "parse_data_click d =
     (if no_source_files d
      then [Msgprint ''Add at least one source file (in the Source Files table) before parsing.'']
      else [ServerCall parse_source, ReloadDoc])"

text \<open>\<open>open_preview_dialog\<close>: the dialog is shown and the first page is requested
  (\<open>start: 0, page_len: 200, order: 'desc'\<close>); the callback only fills the dialog.\<close>

definition open_preview_dialog :: "checkin_run_doc \<Rightarrow> effect list" where
  "open_preview_dialog d = [ShowDialog ''Device Events Overview'', ServerCall cr_preview]"

text \<open>The click handler of \<open>Preview Data\<close>.\<close>

definition preview_data_click :: "checkin_run_doc \<Rightarrow> effect list" where
  "preview_data_click d =
     (if no_source_files d
      then [Msgprint ''Add at least one source file (in the Source Files table) before previewing.'']
      else open_preview_dialog d)"

text \<open>The click handler of \<open>Create Employee Checkins\<close>: the callback shows the counts
  and reloads the document.\<close>

definition create_employee_checkins_click :: "checkin_run_doc \<Rightarrow> effect list" where
  "create_employee_checkins_click d =
     [ServerCall generate_checkins, Msgprint ''Employee Checkins Import'', ReloadDoc]"

text \<open>A click on the button \<open>label\<close> of a Checkin Run: a handler runs only if \<open>refresh\<close>
  has put its button on the form.\<close>

definition checkin_click :: "string \<Rightarrow> checkin_run_doc \<Rightarrow> effect list" where
  "checkin_click label d =
     (if label \<notin> set (checkin_run_buttons d) then []
      else if label = ''Parse Data'' then parse_data_click d
      else if label = ''Preview Data'' then preview_data_click d
      else if label = ''Create Employee Checkins'' then create_employee_checkins_click d
      else [])"

text \<open>
  The grid of the child table \<open>source_files\<close> as far as \<open>enforce_locks\<close> writes it:
  the two flags of the grid, whether the add and remove buttons and the controls that
  clear an attached file are shown, the \<open>read_only\<close> property of the column \<open>file\<close>,
  and whether the handler \<open>click.cr_lock\<close>, which swallows clicks on the clear controls,
  is bound.
\<close>

record source_files_grid =
  cannot_add_rows :: bool
  cannot_delete_rows :: bool
  grid_add_row_shown :: bool
  grid_remove_rows_shown :: bool
  file_read_only :: bool
  clear_controls_shown :: bool
  click_lock_bound :: bool

text \<open>The form: the document, the \<open>read_only\<close> property of each parent field, and the
  grid (\<open>None\<close> when \<open>frm.get_field('source_files')\<close> has no grid).\<close>

record checkin_run_frm =
  cr_doc :: checkin_run_doc
  cr_read_only :: "string \<Rightarrow> bool"
  cr_grid :: "source_files_grid option"

definition frozen :: "checkin_run_doc \<Rightarrow> bool" where
  "frozen d = (cr_status_lower d = ''imported'')"

text \<open>\<open>enforce_locks\<close>. Each \<open>toggle(!frozen)\<close> shows the elements exactly when the Run is
  not frozen; the later re-applications on a timer write the same values.\<close>

definition enforce_locks :: "checkin_run_frm \<Rightarrow> checkin_run_frm" where
  "enforce_locks frm =
     (let fz = frozen (cr_doc frm);
          frm1 = frm\<lparr> cr_read_only :=
                   (cr_read_only frm)(''cutoff_time'' := fz, ''log_window_seconds'' := fz) \<rparr>
      in case cr_grid frm of
           None \<Rightarrow> frm1
         | Some grid \<Rightarrow>
             frm1\<lparr> cr_grid := Some (grid\<lparr> cannot_add_rows := fz,
                                            cannot_delete_rows := fz,
                                            grid_add_row_shown := \<not> fz,
                                            grid_remove_rows_shown := \<not> fz,
                                            file_read_only := fz,
                                            clear_controls_shown := \<not> fz,
                                            click_lock_bound := fz \<rparr>) \<rparr>)"


section \<open>Statement Run (\<open>statement_run.js\<close>)\<close>

record statement_run_doc =
  st_name :: string
  st_status :: "string option"
  st_source_file :: "string option"
  st_date_column :: "string option"
  st_description_column :: "string option"
  st_has_credit_debit_columns :: bool
  st_credit_column :: "string option"
  st_debit_column :: "string option"
  st_amount_column :: "string option"

text \<open>\<open>if (!v) missing.push(label)\<close>\<close>

definition push_if_missing :: "string option \<Rightarrow> string \<Rightarrow> string list" where
  "push_if_missing v label = (if \<not> truthy v then [label] else [])"

text \<open>The array \<open>missing\<close> of \<open>has_min_mapping\<close> when all pushes are done.\<close>

definition missing_fields :: "statement_run_doc \<Rightarrow> string list" where
  "missing_fields d =
     push_if_missing (st_source_file d) ''Source File'' @
     push_if_missing (st_date_column d) ''Date Column'' @
     push_if_missing (st_description_column d) ''Description Column'' @
     (if st_has_credit_debit_columns d
      then push_if_missing (st_credit_column d) ''Credit Column'' @
           push_if_missing (st_debit_column d) ''Debit Column''
      else push_if_missing (st_amount_column d) ''Amount Column'')"

text \<open>\<open>has_min_mapping\<close>: the returned boolean and the message it shows.\<close>

definition has_min_mapping :: "statement_run_doc \<Rightarrow> bool \<times> effect list" where
  "has_min_mapping d =
     (let missing = missing_fields d
      in if length missing \<noteq> 0
         then (False, [Msgprint (''Please fill: '' @ join '', '' missing)])
         else (True, []))"

text \<open>
  The click handler of \<open>Preview\<close>. \<open>call_err\<close> and \<open>reload_err\<close> are the errors with which
  the request and the reload fail (\<open>None\<close>: they succeed); a failure is caught and
  shown, and the page is unfrozen in every case.
\<close>

definition preview_click :: "string option \<Rightarrow> string option \<Rightarrow> statement_run_doc \<Rightarrow> effect list" where
  "preview_click call_err reload_err d =
     (case has_min_mapping d of
        (False, shown) \<Rightarrow> shown
      | (True, shown) \<Rightarrow>
          [Freeze ''Parsing statement...'', ServerCall preview_rows] @
          (case call_err of
             Some e \<Rightarrow> [Msgprint (''Preview failed: '' @ e)]
           | None \<Rightarrow>
               ReloadDoc #
               (case reload_err of
                  Some e \<Rightarrow> [Msgprint (''Preview failed: '' @ e)]
                | None \<Rightarrow> [ShowDialog ''Bank Statement Preview'', ShowAlert ''Preview ready.''])) @
          [Unfreeze])"

text \<open>\<open>add_formatter_buttons\<close>: the labels it adds.\<close>

definition add_formatter_buttons :: "statement_run_doc \<Rightarrow> string list" where
  "add_formatter_buttons d =
     [''Preview''] @
     (if st_status d = Some ''Parsed'' then [''Create Bank Transactions''] else [])"

text \<open>\<open>refresh\<close> returns at once on a new document.\<close>

definition statement_run_buttons :: "bool \<Rightarrow> statement_run_doc \<Rightarrow> string list" where
  "statement_run_buttons is_new d = (if is_new then [] else add_formatter_buttons d)"

text \<open>
  The click handler of \<open>Create Bank Transactions\<close>: the document on the form afterwards
  (before the reload answers) and the effects. On success the script assigns
  \<open>frm.doc.status = 'Imported'\<close>; on failure it only reloads.
\<close>

definition create_bank_transactions_click ::
  "string option \<Rightarrow> statement_run_doc \<Rightarrow> statement_run_doc \<times> effect list" where
  "create_bank_transactions_click call_err d =
     (case call_err of
        None \<Rightarrow>
          (d\<lparr> st_status := Some ''Imported'' \<rparr>,
           [Freeze ''Creating Bank Transactions...'', ServerCall create_bank_transactions,
            ShowAlert ''Bank Transactions generated'', ClearCustomButtons, SetStatus ''Imported'',
            ReloadDoc, Unfreeze])
      | Some e \<Rightarrow>
          (d, [Freeze ''Creating Bank Transactions...'', ServerCall create_bank_transactions,
               ReloadDoc, Unfreeze]))"

text \<open>A click on the button \<open>label\<close> of a Statement Run.\<close>

definition statement_click ::
  "bool \<Rightarrow> string option \<Rightarrow> string option \<Rightarrow> string \<Rightarrow> statement_run_doc \<Rightarrow> effect list" where
  "statement_click is_new call_err reload_err label d =
     (if label \<notin> set (statement_run_buttons is_new d) then []
      else if label = ''Preview'' then preview_click call_err reload_err d
      else if label = ''Create Bank Transactions'' then snd (create_bank_transactions_click call_err d)
      else [])"

text \<open>The form: the document, which fields exist on it (\<open>frm.get_field(fn)\<close>), the
  \<open>read_only\<close> property of each field, and the visibility of the primary action (Save)
  of the toolbar (\<open>None\<close>: no toolbar).\<close>

record statement_run_frm =
  st_doc :: statement_run_doc
  st_has_field :: "string \<Rightarrow> bool"
  st_read_only :: "string \<Rightarrow> bool"
  st_primary_action_visible :: "bool option"

definition fields_to_lock :: "string list" where
  "fields_to_lock =
     [''bank_account'', ''statement_start'', ''statement_end'', ''source_file'', ''lock_mapping_fields'']"

text \<open>The fields of the document that hold the column mapping, the ones
  \<open>has_min_mapping\<close> reads. None of them is in \<open>fields_to_lock\<close>.\<close>

definition mapping_columns :: "string list" where
  "mapping_columns =
     [''date_column'', ''description_column'', ''has_credit_debit_columns'', ''credit_column'',
      ''debit_column'', ''amount_column'']"

definition isImported :: "statement_run_doc \<Rightarrow> bool" where
  "isImported d = (st_status d = Some ''Imported'')"

text \<open>\<open>enforce_import_lock\<close>: the \<open>forEach\<close> over \<open>fields_to_lock\<close> is the fold.\<close>

definition enforce_import_lock :: "statement_run_frm \<Rightarrow> statement_run_frm" where
  "enforce_import_lock frm =
     (let imported = isImported (st_doc frm)
      in frm\<lparr> st_read_only :=
                 foldl (\<lambda>ro fn. if st_has_field frm fn then ro(fn := imported) else ro)
                       (st_read_only frm) fields_to_lock,
               st_primary_action_visible :=
                 map_option (\<lambda>v. \<not> imported) (st_primary_action_visible frm) \<rparr>)"


section \<open>Invoice Run (\<open>invoice_run.js\<close>)\<close>

text \<open>\<open>ir_source_files\<close> holds the status of each row of the child table.\<close>

record invoice_run_doc =
  ir_name :: string
  ir_status :: "string option"
  ir_source_files :: "string option list option"
  ir_ready_count :: "int option"

text \<open>\<open>['Parsed', 'Imported'].includes(frm.doc.status)\<close>\<close>

definition lockParent :: "invoice_run_doc \<Rightarrow> bool" where
  "lockParent d = (ir_status d = Some ''Parsed'' \<or> ir_status d = Some ''Imported'')"

text \<open>\<open>frm.toggle_enable(['supplier', 'duplicate_check_by'], !lockParent)\<close>: whether the
  call leaves the field enabled; \<open>None\<close> for a field the call does not touch.\<close>

definition toggle_enable :: "invoice_run_doc \<Rightarrow> string \<Rightarrow> bool option" where
  "toggle_enable d fn =
     (if fn = ''supplier'' \<or> fn = ''duplicate_check_by'' then Some (\<not> lockParent d) else None)"

definition hasDraftOrErrorChild :: "invoice_run_doc \<Rightarrow> bool" where
  "hasDraftOrErrorChild d =
     list_ex (\<lambda>st. st = Some ''Draft'' \<or> st = Some ''Error'')
       (case ir_source_files d of None \<Rightarrow> [] | Some rows \<Rightarrow> rows)"

text \<open>\<open>(frm.doc.ready_count || 0) > 0\<close>\<close>

definition has_ready_rows :: "invoice_run_doc \<Rightarrow> bool" where
  "has_ready_rows d = ((case ir_ready_count d of None \<Rightarrow> 0 | Some n \<Rightarrow> n) > 0)"

text \<open>The labels \<open>refresh\<close> adds for parsing, previewing and generating (the button
  \<open>View Import Log\<close> is left out).\<close>

definition invoice_run_buttons :: "invoice_run_doc \<Rightarrow> string list" where
  "invoice_run_buttons d =
     (if ir_status d = Some ''Draft'' \<or> hasDraftOrErrorChild d then [''Parse Data''] else []) @
     (if has_ready_rows d \<or> ir_status d = Some ''Parsed''
      then [''Preview'', ''Create Purchase Invoices''] else [])"

text \<open>The last part of \<open>refresh\<close>: the button that clears the attached file of a
  source-file row is hidden for the rows whose own status is \<open>Parsed\<close>, whatever the status
  of the Run.\<close>

definition hides_clear_button :: "string option \<Rightarrow> bool" where
  "hides_clear_button row_status = (row_status = Some ''Parsed'')"

text \<open>The click handler of \<open>Parse Data\<close> of the Invoice Run: the request is awaited, then
  the document is reloaded; a failed request ends the handler.\<close>

definition invoice_parse_click :: "string option \<Rightarrow> invoice_run_doc \<Rightarrow> effect list" where
  "invoice_parse_click call_err d =
     (case call_err of None \<Rightarrow> [ServerCall parse_files, ReloadDoc] | Some e \<Rightarrow> [ServerCall parse_files])"


text \<open>The click handler of \<open>Preview\<close> of the Invoice Run: the request is awaited and its
  answer is shown in a dialog; a failed request ends the handler.\<close>

definition invoice_preview_click :: "string option \<Rightarrow> invoice_run_doc \<Rightarrow> effect list" where
  "invoice_preview_click call_err d =
     (case call_err of
        None \<Rightarrow> [ServerCall get_preview_html, ShowDialog ''Purchase Invoices Preview'']
      | Some e \<Rightarrow> [ServerCall get_preview_html])"

text \<open>The click handler of \<open>Create Purchase Invoices\<close>: the request is awaited, then the
  document is reloaded.\<close>

definition create_purchase_invoices_click :: "string option \<Rightarrow> invoice_run_doc \<Rightarrow> effect list" where
  "create_purchase_invoices_click call_err d =
     (case call_err of
        None \<Rightarrow> [ServerCall create_purchase_invoices, ReloadDoc]
      | Some e \<Rightarrow> [ServerCall create_purchase_invoices])"

text \<open>A click on the button \<open>label\<close> of an Invoice Run.\<close>

definition invoice_click :: "string option \<Rightarrow> string \<Rightarrow> invoice_run_doc \<Rightarrow> effect list" where
  "invoice_click call_err label d =
     (if label \<notin> set (invoice_run_buttons d) then []
      else if label = ''Parse Data'' then invoice_parse_click call_err d
      else if label = ''Preview'' then invoice_preview_click call_err d
      else if label = ''Create Purchase Invoices'' then create_purchase_invoices_click call_err d
      else [])"


section \<open>Server side of the pipeline, from the specification\<close>

text \<open>
  The form scripts only request the server methods; the methods themselves (parse,
  preview, generate and the status changes they make) are not among the sources. The
  definitions of this section follow the specification of the pipeline.
\<close>

subsection \<open>Run State Machine\<close>

datatype operation = Parse | Generate

text \<open>
  Modelled from the spec: the status transitions, which the missing server methods
  \<open>parse_source\<close>, \<open>generate_checkins\<close>, \<open>preview_rows\<close> and \<open>create_bank_transactions\<close>
  perform. States \<open>Draft -> Parsed -> Imported | Failed\<close>. For \<open>Parse\<close> from \<open>Draft\<close>,
  \<open>ok\<close> says that there is at least one SourceFile and the validator passes; an
  incomplete configuration is never partially applied, so the status stays. For
  \<open>Generate\<close>, \<open>ok\<close> says that generation completed with zero unrecoverable errors.
  \<open>Failed -> Draft\<close> is the operator's re-parse. Every other pair is rejected.
\<close>

fun transition :: "run_status \<Rightarrow> operation \<Rightarrow> bool \<Rightarrow> run_status option" where
  "transition Draft Parse ok = (if ok then Some Parsed else None)"
| "transition Failed Parse ok = Some Draft"
| "transition Parsed Generate ok = Some (if ok then Imported else Failed)"
| "transition s op ok = None"

text \<open>How far a status is along \<open>Draft -> Parsed -> {Imported, Failed}\<close>.\<close>

fun rank :: "run_status \<Rightarrow> nat" where
  "rank Draft = 0"
| "rank Parsed = 1"
| "rank Imported = 2"
| "rank Failed = 2"

subsection \<open>Canonical rows and the Preview Service\<close>

record 'k canonical_row =
  natural_key :: 'k
  ordering_key :: int
  ready :: bool

record 'k preview_page =
  pv_total :: nat
  pv_ready :: nat
  pv_rows :: "'k canonical_row list"

text \<open>
  Modelled from the spec: the missing server method \<open>cr_preview\<close>, as the Preview Service
  \<open>preview(Run, offset, limit, order) -> {total, ready, rows[]}\<close>: read-only, paginated,
  ordered by the ordering key ascending or descending per request, over the CanonicalRow
  set \<open>rows\<close> of the most recent Row Normalizer pass.
\<close>

definition preview ::
  "'k canonical_row list \<Rightarrow> nat \<Rightarrow> nat \<Rightarrow> bool \<Rightarrow> 'k preview_page" where
  "preview rows offset limit descending =
     (let ordered = sort_key ordering_key rows
      in \<lparr> pv_total = length rows,
           pv_ready = length (filter ready rows),
           pv_rows = take limit (drop offset (if descending then rev ordered else ordered)) \<rparr>)"

subsection \<open>Dedup Resolver and Generation Engine\<close>

text \<open>
  The record store holds the GeneratedRecords; each is identified here by the natural key
  it was created for, so the store is the list of these keys. The answer of the record
  store to \<open>create(doctype, fields)\<close> is a parameter of the engine: the record is created,
  the row is rejected (a row-level error), or the store is unavailable (an engine-level
  error).
\<close>

datatype create_outcome = Record_created | Row_rejected | Store_unavailable

record gen_result =
  created :: nat
  already_exists :: nat
  failed :: nat
  skipped :: nat
  aborted :: bool


text \<open>Modelled from the spec: the Dedup Resolver \<open>exists(natural_key) -> bool\<close>, a lookup
  of the natural key among the existing records, queried once per row immediately before
  creation.\<close>

definition dedup_exists :: "'k list \<Rightarrow> 'k \<Rightarrow> bool" where
  "dedup_exists store k = (k \<in> set store)"

text \<open>
  Modelled from the spec: the algorithm of the Generation Engine over the rows in the
  order given (the server method \<open>generate_checkins\<close> is missing). A row that is not
  ready is skipped; a ready row whose key exists counts as \<open>already_exists\<close>; otherwise
  creation is attempted: success counts as \<open>created\<close> and adds the record, a row-level
  failure counts as \<open>failed\<close> and the batch continues, an engine-level failure aborts the
  remaining batch. (The list \<open>details\<close> of the result is left out.)
\<close>

fun generate_rows ::
  "('k \<Rightarrow> create_outcome) \<Rightarrow> 'k list \<Rightarrow> gen_result \<Rightarrow> 'k canonical_row list \<Rightarrow> 'k list \<times> gen_result" where
  "generate_rows create store res [] = (store, res)"
| "generate_rows create store res (r # rs) =
     (if \<not> ready r then generate_rows create store (res\<lparr> skipped := skipped res + 1 \<rparr>) rs
      else if dedup_exists store (natural_key r)
      then generate_rows create store (res\<lparr> already_exists := already_exists res + 1 \<rparr>) rs
      else (case create (natural_key r) of
              Record_created \<Rightarrow>
                generate_rows create (store @ [natural_key r]) (res\<lparr> created := created res + 1 \<rparr>) rs
            | Row_rejected \<Rightarrow>
                generate_rows create store (res\<lparr> failed := failed res + 1 \<rparr>) rs
            | Store_unavailable \<Rightarrow> (store, res\<lparr> aborted := True \<rparr>)))"



subsection \<open>The Run on the server\<close>

text \<open>
  Modelled from the spec: the Run as the server keeps it, with its status and the
  CanonicalRow set of the most recent Row Normalizer pass.
\<close>

record 'k server_run =
  sv_status :: run_status
  sv_rows :: "'k canonical_row list"

text \<open>
  What a request finds when it arrives: whether there is at least one SourceFile and the
  validator passes, the rows the Row Normalizer makes of the source files, and whether
  the Generation Engine completes with zero unrecoverable errors.
\<close>

record 'k occasion =
  sources_valid :: bool
  normalizer_rows :: "'k canonical_row list"
  generation_clean :: bool

text \<open>
  Modelled from the spec: \<open>parse(run)\<close>, the missing server methods \<open>parse_source\<close>,
  \<open>preview_rows\<close> and \<open>parse_files\<close>. The Run State Machine decides. On \<open>Draft -> Parsed\<close>
  the Row Normalizer runs and its rows replace those of the Run; on \<open>Failed -> Draft\<close> the
  Run is reopened; a parse the state machine rejects leaves the Run as it is.
\<close>

definition server_parse :: "'k occasion \<Rightarrow> 'k server_run \<Rightarrow> 'k server_run" where
  "server_parse oc run =
     (case transition (sv_status run) Parse (sources_valid oc) of
        None \<Rightarrow> run
      | Some s \<Rightarrow>
          if s = Parsed then \<lparr> sv_status = Parsed, sv_rows = normalizer_rows oc \<rparr>
          else run\<lparr> sv_status := s \<rparr>)"

text \<open>
  Modelled from the spec: \<open>generate(run)\<close> as far as the Run goes, the missing server
  methods \<open>generate_checkins\<close>, \<open>create_bank_transactions\<close> and \<open>create_purchase_invoices\<close>.
  The Run State Machine decides; the rows stay.
\<close>

definition server_generate :: "'k occasion \<Rightarrow> 'k server_run \<Rightarrow> 'k server_run" where
  "server_generate oc run =
     (case transition (sv_status run) Generate (generation_clean oc) of
        None \<Rightarrow> run
      | Some s \<Rightarrow> run\<lparr> sv_status := s \<rparr>)"

text \<open>
  Modelled from the spec: \<open>preview(run, offset, limit, order)\<close>, the missing server methods
  \<open>cr_preview\<close> and \<open>get_preview_html\<close>: the Run afterwards and the page. The Preview
  Service is read-only and reflects the rows of the most recent Row Normalizer pass.
\<close>

definition server_preview ::
  "'k server_run \<Rightarrow> nat \<Rightarrow> nat \<Rightarrow> bool \<Rightarrow> 'k server_run \<times> 'k preview_page" where
  "server_preview run offset limit descending = (run, preview (sv_rows run) offset limit descending)"

text \<open>
  Modelled from the spec: the Run after the request of the method \<open>m\<close>, by the names under
  which the scripts request the methods. \<open>open_preview_dialog\<close> asks for
  \<open>start: 0, page_len: 200, order: 'desc'\<close>. Under any other name there is no method of
  the pipeline, and the Run stays as it is.
\<close>

definition spec_server :: "'k occasion \<Rightarrow> string \<Rightarrow> 'k server_run \<Rightarrow> 'k server_run" where
  "spec_server oc m run =
     (if is_parse_call (ServerCall m) then server_parse oc run
      else if is_generate_call (ServerCall m) then server_generate oc run
      else if m = cr_preview \<or> m = get_preview_html then fst (server_preview run 0 200 True)
      else run)"


section \<open>The form and the server together\<close>

text \<open>
  The state is the document on the form together with the Run on the server. Of the
  effects of a handler, a request runs the method on the server, \<open>frm.reload_doc()\<close>
  brings the server's document to the form, and \<open>frm.doc.status = s\<close> writes the document
  on the form; the other effects change neither. \<open>server\<close>, \<open>reload\<close> and \<open>assign\<close> say
  what the three do.
\<close>

fun apply_effect ::
  "(string \<Rightarrow> 's \<Rightarrow> 's) \<Rightarrow> ('s \<Rightarrow> 'd \<Rightarrow> 'd) \<Rightarrow> (string \<Rightarrow> 'd \<Rightarrow> 'd) \<Rightarrow> 'd \<times> 's \<Rightarrow> effect \<Rightarrow> 'd \<times> 's" where
  "apply_effect server reload assign ds (ServerCall m) = (fst ds, server m (snd ds))"
| "apply_effect server reload assign ds ReloadDoc = (reload (snd ds) (fst ds), snd ds)"
| "apply_effect server reload assign ds (SetStatus s) = (assign s (fst ds), snd ds)"
| "apply_effect server reload assign ds e = ds"

definition run_effects ::
  "(string \<Rightarrow> 's \<Rightarrow> 's) \<Rightarrow> ('s \<Rightarrow> 'd \<Rightarrow> 'd) \<Rightarrow> (string \<Rightarrow> 'd \<Rightarrow> 'd) \<Rightarrow> 'd \<times> 's \<Rightarrow> effect list \<Rightarrow> 'd \<times> 's" where
  "run_effects server reload assign ds es = foldl (apply_effect server reload assign) ds es"

text \<open>
  Modelled from the spec: what \<open>frm.reload_doc()\<close> brings to each of the three forms, the
  server's document being the Run of the specification. Of the fields of the documents
  above, the status is the one the server methods of the specification write, so a
  reload brings the status of the Run to the form. The assignment \<open>frm.doc.status = s\<close>
  writes the status on the form.
\<close>

definition reload_checkin :: "'k server_run \<Rightarrow> checkin_run_doc \<Rightarrow> checkin_run_doc" where
  "reload_checkin run d = d\<lparr> cr_status := Some (status_name (sv_status run)) \<rparr>"

definition assign_checkin :: "string \<Rightarrow> checkin_run_doc \<Rightarrow> checkin_run_doc" where
  "assign_checkin s d = d\<lparr> cr_status := Some s \<rparr>"

definition reload_statement :: "'k server_run \<Rightarrow> statement_run_doc \<Rightarrow> statement_run_doc" where
  "reload_statement run d = d\<lparr> st_status := Some (status_name (sv_status run)) \<rparr>"

definition assign_statement :: "string \<Rightarrow> statement_run_doc \<Rightarrow> statement_run_doc" where
  "assign_statement s d = d\<lparr> st_status := Some s \<rparr>"

definition reload_invoice :: "'k server_run \<Rightarrow> invoice_run_doc \<Rightarrow> invoice_run_doc" where
  "reload_invoice run d = d\<lparr> ir_status := Some (status_name (sv_status run)) \<rparr>"

definition assign_invoice :: "string \<Rightarrow> invoice_run_doc \<Rightarrow> invoice_run_doc" where
  "assign_invoice s d = d\<lparr> ir_status := Some s \<rparr>"

text \<open>One click on a form whose requests the server of the specification answers. On the
  Statement Run a reload that fails (\<open>reload_err\<close>) leaves the document on the form as it
  is.\<close>

definition checkin_system_click ::
  "'k occasion \<Rightarrow> string \<Rightarrow> checkin_run_doc \<times> 'k server_run \<Rightarrow> checkin_run_doc \<times> 'k server_run" where
  "checkin_system_click oc label ds =
     run_effects (spec_server oc) reload_checkin assign_checkin ds (checkin_click label (fst ds))"

definition statement_system_click ::
  "'k occasion \<Rightarrow> bool \<Rightarrow> string option \<Rightarrow> string option \<Rightarrow> string \<Rightarrow>
     statement_run_doc \<times> 'k server_run \<Rightarrow> statement_run_doc \<times> 'k server_run" where
  "statement_system_click oc is_new call_err reload_err label ds =
     run_effects (spec_server oc)
       (case reload_err of None \<Rightarrow> reload_statement | Some e \<Rightarrow> (\<lambda>run d. d))
       assign_statement ds
       (statement_click is_new call_err reload_err label (fst ds))"

definition invoice_system_click ::
  "'k occasion \<Rightarrow> string option \<Rightarrow> string \<Rightarrow> invoice_run_doc \<times> 'k server_run \<Rightarrow>
     invoice_run_doc \<times> 'k server_run" where
  "invoice_system_click oc call_err label ds =
     run_effects (spec_server oc) reload_invoice assign_invoice ds (invoice_click call_err label (fst ds))"

text \<open>A session on a Checkin Run: one click after the other, each with its occasion.\<close>

definition checkin_session ::
  "('k occasion \<times> string) list \<Rightarrow> checkin_run_doc \<times> 'k server_run \<Rightarrow> checkin_run_doc \<times> 'k server_run" where
  "checkin_session clicks ds = foldl (\<lambda>ds c. checkin_system_click (fst c) (snd c) ds) ds clicks"

text \<open>Clicking the preview button once on each of the occasions \<open>ocs\<close>, on a Checkin Run
  and on an Invoice Run.\<close>

definition checkin_previews ::
  "'k occasion list \<Rightarrow> checkin_run_doc \<times> 'k server_run \<Rightarrow> checkin_run_doc \<times> 'k server_run" where
  "checkin_previews ocs ds =
     foldl (\<lambda>ds oc. run_effects (spec_server oc) reload_checkin assign_checkin ds
                       (preview_data_click (fst ds))) ds ocs"

definition invoice_previews ::
  "string option \<Rightarrow> 'k occasion list \<Rightarrow> invoice_run_doc \<times> 'k server_run \<Rightarrow> invoice_run_doc \<times> 'k server_run" where
  "invoice_previews call_err ocs ds =
     foldl (\<lambda>ds oc. run_effects (spec_server oc) reload_invoice assign_invoice ds
                       (invoice_preview_click call_err (fst ds))) ds ocs"


section \<open>Required fields, as the specification lists them\<close>

text \<open>
  The columns the Mapping Validator of the specification requires, each with the label
  under which the script reports it: a date column and a description column always; a
  single amount column in amount mode; a credit and a debit column in credit/debit mode.
\<close>

definition required_columns :: "statement_run_doc \<Rightarrow> (string option \<times> string) list" where
  "required_columns d =
     [(st_date_column d, ''Date Column''), (st_description_column d, ''Description Column'')] @
     (if st_has_credit_debit_columns d
      then [(st_credit_column d, ''Credit Column''), (st_debit_column d, ''Debit Column'')]
      else [(st_amount_column d, ''Amount Column'')])"


section \<open>Example documents\<close>

definition example_sales_return :: sales_return_doc where
  "example_sales_return =
     \<lparr> sr_name = ''SR-0001'', sr_customer = Some ''CUST-01'',
       sr_items = Some [\<lparr> item_code = ''A'', qty = 2, batch_no = None \<rparr>,
                        \<lparr> item_code = ''B'', qty = -3, batch_no = Some ''B1'' \<rparr>,
                        \<lparr> item_code = ''C'', qty = 0, batch_no = None \<rparr>],
       sr_workflow_state = Some ''Draft'', sr_customer_reference_no = None,
       sr_shipping_address_name = None, sr_selling_price_list = None \<rparr>"



definition example_checkin_run :: "string option \<Rightarrow> string option list option \<Rightarrow> checkin_run_doc" where
  "example_checkin_run st files = \<lparr> cr_name = ''CR-0001'', cr_status = st, cr_source_files = files \<rparr>"

definition example_grid :: source_files_grid where
  "example_grid =
     \<lparr> cannot_add_rows = False, cannot_delete_rows = False, grid_add_row_shown = True,
       grid_remove_rows_shown = True, file_read_only = False, clear_controls_shown = True,
       click_lock_bound = False \<rparr>"

definition example_checkin_frm :: "string option \<Rightarrow> checkin_run_frm" where
  "example_checkin_frm st =
     \<lparr> cr_doc = example_checkin_run st (Some [Some ''/files/events.csv'']),
       cr_read_only = (\<lambda>fn. False), cr_grid = Some example_grid \<rparr>"

text \<open>A Statement Run in amount mode in which only the date column and the description
  column are set.\<close>

definition example_statement_run :: statement_run_doc where
  "example_statement_run =
     \<lparr> st_name = ''SR-0001'', st_status = Some ''Draft'', st_source_file = None,
       st_date_column = Some ''Date'', st_description_column = Some ''Details'',
       st_has_credit_debit_columns = False, st_credit_column = None, st_debit_column = None,
       st_amount_column = None \<rparr>"

definition example_statement_frm :: "statement_run_doc \<Rightarrow> statement_run_frm" where
  "example_statement_frm d =
     \<lparr> st_doc = d, st_has_field = (\<lambda>fn. True), st_read_only = (\<lambda>fn. False),
       st_primary_action_visible = Some True \<rparr>"

definition example_invoice_run :: "string option \<Rightarrow> int option \<Rightarrow> invoice_run_doc" where
  "example_invoice_run st n =
     \<lparr> ir_name = ''IR-0001'', ir_status = st, ir_source_files = Some [], ir_ready_count = n \<rparr>"

text \<open>Two ready rows with the same natural key, as when one device event occurs in two
  source files.\<close>

definition example_rows :: "nat canonical_row list" where
  "example_rows =
     [\<lparr> natural_key = 7, ordering_key = 100, ready = True \<rparr>,
      \<lparr> natural_key = 7, ordering_key = 100, ready = True \<rparr>]"

text \<open>Three rows, two of them ready, with different natural keys.\<close>

definition example_rows3 :: "nat canonical_row list" where
  "example_rows3 =
     [\<lparr> natural_key = 2, ordering_key = 30, ready = True \<rparr>,
      \<lparr> natural_key = 1, ordering_key = 10, ready = True \<rparr>,
      \<lparr> natural_key = 3, ordering_key = 20, ready = False \<rparr>]"


text \<open>A Statement Run in credit/debit mode with a source file and a description column
  only.\<close>

definition example_statement_run_cd :: statement_run_doc where
  "example_statement_run_cd =
     \<lparr> st_name = ''SR-0002'', st_status = Some ''Draft'', st_source_file = Some ''/files/s.csv'',
       st_date_column = None, st_description_column = Some ''Details'',
       st_has_credit_debit_columns = True, st_credit_column = Some [], st_debit_column = None,
       st_amount_column = None \<rparr>"

text \<open>A Statement Run in amount mode whose mapping is complete.\<close>

definition example_statement_run_ok :: statement_run_doc where
  "example_statement_run_ok =
     \<lparr> st_name = ''SR-0003'', st_status = Some ''Imported'', st_source_file = Some ''/files/s.csv'',
       st_date_column = Some ''Date'', st_description_column = Some ''Details'',
       st_has_credit_debit_columns = False, st_credit_column = None, st_debit_column = None,
       st_amount_column = Some ''Amount'' \<rparr>"




text \<open>The Statement Run with the complete mapping while it is still a draft, an Invoice
  Run with a source-file row in status \<open>Error\<close>, and a Run on the server.\<close>

definition example_statement_run_draft :: statement_run_doc where
  "example_statement_run_draft = example_statement_run_ok\<lparr> st_status := Some ''Draft'' \<rparr>"

definition example_invoice_run_error :: "string option \<Rightarrow> invoice_run_doc" where
  "example_invoice_run_error st =
     \<lparr> ir_name = ''IR-0002'', ir_status = st, ir_source_files = Some [Some ''Parsed'', Some ''Error''],
       ir_ready_count = None \<rparr>"

definition example_occasion :: "nat occasion" where
  "example_occasion = \<lparr> sources_valid = True, normalizer_rows = example_rows3, generation_clean = True \<rparr>"

definition example_server_run :: "run_status \<Rightarrow> nat server_run" where
  "example_server_run s = \<lparr> sv_status = s, sv_rows = example_rows \<rparr>"


section \<open>Sales Return: properties\<close>

lemma invoice_item_of_qty:
  "cn_qty (invoice_item_of n row) = (if qty row > 0 then - qty row else qty row)"
  by (simp add: invoice_item_of_def)

lemma invoice_item_of_nonpos: "cn_qty (invoice_item_of n row) \<le> 0"
  by (simp add: invoice_item_of_def)

text \<open>
  C10. Whenever the handler inserts a credit note, a customer is set and the item list is
  non-empty; line by line, the credit-note quantity is the negated row quantity when that
  is positive and the row quantity itself otherwise; so no line has a positive quantity.
\<close>

theorem credit_note_quantities:
  assumes "create_credit_note today d = Inr cn"
  shows "truthy (sr_customer d) \<and>
         (\<exists>rows. sr_items d = Some rows \<and> rows \<noteq> [] \<and>
            map cn_qty (si_items cn) = map (\<lambda>row. if qty row > 0 then - qty row else qty row) rows) \<and>
         (\<forall>it \<in> set (si_items cn). cn_qty it \<le> 0)"
proof -
  from assms obtain rows where rows: "sr_items d = Some rows"
    by (cases "sr_items d") (simp_all add: create_credit_note_def)
  from assms rows have guard: "truthy (sr_customer d)" "rows \<noteq> []"
    by (auto simp: create_credit_note_def split: if_splits)
  from assms rows guard have items: "si_items cn = map (invoice_item_of (sr_name d)) rows"
    by (auto simp: create_credit_note_def)
  have "map cn_qty (si_items cn) = map (\<lambda>row. if qty row > 0 then - qty row else qty row) rows"
    unfolding items by (simp add: invoice_item_of_qty)
  moreover have "\<forall>it \<in> set (si_items cn). cn_qty it \<le> 0"
    unfolding items using invoice_item_of_nonpos by auto
  ultimately show ?thesis using rows guard by blast
qed

theorem credit_note_quantities_witness:
  "\<exists>cn. create_credit_note ''2025-05-08'' example_sales_return = Inr cn \<and>
         truthy (sr_customer example_sales_return) \<and>
         map cn_qty (si_items cn) = [-2, -3, 0] \<and>
         list_all (\<lambda>it. cn_qty it \<le> 0) (si_items cn)"
proof -
  obtain cn where h: "create_credit_note ''2025-05-08'' example_sales_return = Inr cn"
    by (simp add: create_credit_note_def example_sales_return_def truthy_def)
  from credit_note_quantities [OF h]
  have facts: "truthy (sr_customer example_sales_return) \<and>
         map cn_qty (si_items cn) = [-2, -3, 0] \<and>
         list_all (\<lambda>it. cn_qty it \<le> 0) (si_items cn)"
    by (simp add: example_sales_return_def list_all_iff)
  show ?thesis
    by (rule exI [of _ cn]) (simp only: h facts simp_thms)
qed


section \<open>Fuel Consumption: properties\<close>






















section \<open>Number formatting: properties\<close>

lemma fmtNumber3_finite:
  "fmtNumber3 parseFloat (JNumber (Finite_number x)) = Three_fraction_digits x"
  by (simp add: fmtNumber3_def coerce_number_def)

lemma fmtNumber3_numeric_text:
  "parseFloat (JString s) = Finite_number x \<Longrightarrow>
   fmtNumber3 parseFloat (JString s) = Three_fraction_digits x"
  by (simp add: fmtNumber3_def coerce_number_def)

lemma fmtNumber3_not_numeric:
  "fmtNumber3 parseFloat JNull = Three_fraction_digits 0"
  "fmtNumber3 parseFloat JUndefined = Three_fraction_digits 0"
  "parseFloat (JString s) = NaN \<Longrightarrow> fmtNumber3 parseFloat (JString s) = Three_fraction_digits 0"
  by (simp_all add: fmtNumber3_def coerce_number_def)

lemma fmtCurrency_number: "snd (fmtCurrency parseFloat val cur) = fmtNumber3 parseFloat val"
  by (simp add: fmtCurrency_def fmtNumber3_def Let_def)

lemma total_compared_at_three_decimals:
  "(calculate_total_fuel_consumption flt flt3 current rows = None) =
     (flt3 current = flt3 (foldl (\<lambda>total row. total + flt (amount_consumed row)) 0 rows))"
  by (simp add: calculate_total_fuel_consumption_def Let_def)

text \<open>
  C8. The formatters give a finite number its three fraction digits, and \<open>null\<close>,
  \<open>undefined\<close> and a text that is not numeric the three fraction digits of \<open>0\<close>. But a
  value of type number is passed on without the \<open>isNaN\<close> test, and the test lets an
  infinity through: \<open>NaN\<close> and the infinities, as numbers or as the text \<open>Infinity\<close>, or
  in a cell of the preview, are rendered as the locale's symbol, without three fraction
  digits.
\<close>

theorem formatter_nan_infinity:
  "fmtNumber3 example_parseFloat (JNumber NaN) = NaN_symbol \<and>
   fmtNumber3 example_parseFloat (JNumber (Infinity True)) = Infinity_symbol True \<and>
   fmtNumber3 example_parseFloat (JString ''Infinity'') = Infinity_symbol True \<and>
   snd (fmtCurrency example_parseFloat (JNumber NaN) (Some ''BHD'')) = NaN_symbol \<and>
   preview_amount_cell example_parseFloat (JString ''Infinity'') = Infinity_symbol True \<and>
   fmtNumber3 example_parseFloat (JString ''abc'') = Three_fraction_digits 0 \<and>
   fmtNumber3 example_parseFloat (JNumber (Finite_number 5)) = Three_fraction_digits 5"
  by (simp add: fmtNumber3_def fmtCurrency_def coerce_number_def preview_amount_cell_def
      example_parseFloat_def Let_def)


section \<open>Mapping validation and parsing: properties\<close>

lemma push_if_missing_filter:
  "push_if_missing v l = map snd (filter (\<lambda>p. \<not> truthy (fst p)) [(v, l)])"
  by (simp add: push_if_missing_def)

lemma missing_fields_required:
  "missing_fields d =
     push_if_missing (st_source_file d) ''Source File'' @
     map snd (filter (\<lambda>p. \<not> truthy (fst p)) (required_columns d))"
  by (simp add: missing_fields_def required_columns_def push_if_missing_def)

lemma has_min_mapping_fst: "fst (has_min_mapping d) = (missing_fields d = [])"
  by (simp add: has_min_mapping_def Let_def)

lemma preview_click_incomplete:
  "missing_fields d \<noteq> [] \<Longrightarrow>
   preview_click ce re d = [Msgprint (''Please fill: '' @ join '', '' (missing_fields d))]"
  by (simp add: preview_click_def has_min_mapping_def Let_def)

lemma preview_click_complete:
  "missing_fields d = [] \<Longrightarrow> ServerCall preview_rows \<in> set (preview_click ce re d)"
  by (simp add: preview_click_def has_min_mapping_def Let_def)

lemma missing_fields_source_file: "missing_fields d = [] \<Longrightarrow> truthy (st_source_file d)"
  by (auto simp: missing_fields_def push_if_missing_def split: if_splits)

text \<open>
  The claim of C5 as it is worded fails on a Statement Run in which only the date column
  and the description column are set: the validator also asks for the source file, and
  reports it first.
\<close>

theorem only_date_and_description_counterexample:
  "\<not> st_has_credit_debit_columns example_statement_run \<and>
   truthy (st_date_column example_statement_run) \<and>
   truthy (st_description_column example_statement_run) \<and>
   \<not> truthy (st_source_file example_statement_run) \<and>
   \<not> truthy (st_amount_column example_statement_run) \<and>
   \<not> truthy (st_credit_column example_statement_run) \<and>
   \<not> truthy (st_debit_column example_statement_run) \<and>
   missing_fields example_statement_run = [''Source File'', ''Amount Column''] \<and>
   has_min_mapping example_statement_run =
     (False, [Msgprint ''Please fill: Source File, Amount Column'']) \<and>
   missing_fields example_statement_run \<noteq> [''Amount Column'']"
  by (simp add: example_statement_run_def missing_fields_def has_min_mapping_def
      push_if_missing_def truthy_def)

text \<open>
  C5, amended. In amount mode, with the source file, the date column and the description
  column set and the amount column not set, \<open>has_min_mapping\<close> returns false and the
  list of missing fields is exactly \<open>Amount Column\<close>.
\<close>

theorem amount_mode_missing_amount:
  assumes "\<not> st_has_credit_debit_columns d"
    and "truthy (st_source_file d)"
    and "truthy (st_date_column d)"
    and "truthy (st_description_column d)"
    and "\<not> truthy (st_amount_column d)"
  shows "missing_fields d = [''Amount Column''] \<and>
         has_min_mapping d = (False, [Msgprint ''Please fill: Amount Column''])"
  using assms by (simp add: missing_fields_def has_min_mapping_def push_if_missing_def)

theorem amount_mode_missing_amount_witness:
  "missing_fields (example_statement_run\<lparr> st_source_file := Some ''/files/s.csv'' \<rparr>) = [''Amount Column''] \<and>
   fst (has_min_mapping (example_statement_run\<lparr> st_source_file := Some ''/files/s.csv'' \<rparr>)) = False"
proof -
  let ?d = "example_statement_run\<lparr> st_source_file := Some ''/files/s.csv'' \<rparr>"
  have "\<not> st_has_credit_debit_columns ?d" "truthy (st_source_file ?d)"
    "truthy (st_date_column ?d)" "truthy (st_description_column ?d)"
    "\<not> truthy (st_amount_column ?d)"
    by (simp_all add: example_statement_run_def truthy_def)
  from amount_mode_missing_amount [OF this] show ?thesis by simp
qed

text \<open>
  C6. The list of missing fields is, in one pass, the source file when it is not set
  followed by every required column that is not set: the date column and the description
  column in both modes, the amount column in amount mode, the credit and the debit column
  in credit/debit mode. The validator passes exactly when that list is empty; when it
  is not, the click on \<open>Preview\<close> only shows the message naming all of them, and no
  request is sent to the server.
\<close>

theorem validator_reports_every_missing_field:
  "missing_fields d =
     push_if_missing (st_source_file d) ''Source File'' @
     map snd (filter (\<lambda>p. \<not> truthy (fst p)) (required_columns d)) \<and>
   fst (has_min_mapping d) = (missing_fields d = []) \<and>
   (missing_fields d \<noteq> [] \<longrightarrow>
      preview_click ce re d = [Msgprint (''Please fill: '' @ join '', '' (missing_fields d))] \<and>
      list_all (\<lambda>e. \<not> is_server_call e) (preview_click ce re d))"
proof -
  have "list_all (\<lambda>e. \<not> is_server_call e) (preview_click ce re d)" if "missing_fields d \<noteq> []"
    using preview_click_incomplete [OF that, of ce re] by simp
  then show ?thesis
    using missing_fields_required [of d] has_min_mapping_fst [of d] preview_click_incomplete [of d ce re]
    by blast
qed

theorem validator_reports_every_missing_field_witness:
  "missing_fields example_statement_run_cd = [''Date Column'', ''Credit Column'', ''Debit Column''] \<and>
   fst (has_min_mapping example_statement_run_cd) = False \<and>
   preview_click None None example_statement_run_cd =
     [Msgprint ''Please fill: Date Column, Credit Column, Debit Column'']"
proof -
  have m: "missing_fields example_statement_run_cd = [''Date Column'', ''Credit Column'', ''Debit Column'']"
    by (simp add: example_statement_run_cd_def missing_fields_def push_if_missing_def truthy_def)
  from validator_reports_every_missing_field [of example_statement_run_cd None None]
  show ?thesis by (simp add: m)
qed

text \<open>
  The claim of C7 as it is worded fails on an Invoice Run: with an empty source-file
  table and status \<open>Draft\<close> the button \<open>Parse Data\<close> is there, and its handler requests
  \<open>parse_files\<close> without looking at the table.
\<close>

theorem invoice_run_parse_counterexample:
  "ir_source_files (example_invoice_run (Some ''Draft'') None) = Some [] \<and>
   ''Parse Data'' \<in> set (invoice_run_buttons (example_invoice_run (Some ''Draft'') None)) \<and>
   invoice_parse_click None (example_invoice_run (Some ''Draft'') None) =
     [ServerCall parse_files, ReloadDoc] \<and>
   is_parse_call (ServerCall parse_files)"
  by (simp add: example_invoice_run_def invoice_run_buttons_def invoice_parse_click_def
      is_parse_call_def)

text \<open>
  C7, amended. On a Checkin Run whose source-file table is missing or empty, the click on
  \<open>Parse Data\<close> only shows the message: nothing is requested from the server and nothing
  touches the Run; the request \<open>parse_source\<close> is sent only when there is at least one
  source file. On a Statement Run the parsing request \<open>preview_rows\<close> is sent only when the
  validator passes, which includes that the source file is set.
\<close>

theorem parse_needs_source_file:
  "(no_source_files d \<longrightarrow>
      parse_data_click d =
        [Msgprint ''Add at least one source file (in the Source Files table) before parsing.''] \<and>
      list_all (\<lambda>e. \<not> is_server_call e \<and> \<not> touches_run e) (parse_data_click d)) \<and>
   (ServerCall parse_source \<in> set (parse_data_click d) \<longrightarrow>
      (\<exists>rows. cr_source_files d = Some rows \<and> rows \<noteq> [])) \<and>
   (ServerCall preview_rows \<in> set (preview_click ce re sd) \<longrightarrow>
      fst (has_min_mapping sd) \<and> truthy (st_source_file sd))"
proof (intro conjI impI)
  assume "no_source_files d"
  then show "parse_data_click d =
      [Msgprint ''Add at least one source file (in the Source Files table) before parsing.'']"
    by (simp add: parse_data_click_def)
  then show "list_all (\<lambda>e. \<not> is_server_call e \<and> \<not> touches_run e) (parse_data_click d)"
    by (simp add: touches_run_def is_parse_call_def is_generate_call_def)
next
  assume "ServerCall parse_source \<in> set (parse_data_click d)"
  then have "\<not> no_source_files d"
    by (auto simp: parse_data_click_def split: if_splits)
  then show "\<exists>rows. cr_source_files d = Some rows \<and> rows \<noteq> []"
    by (cases "cr_source_files d") (simp_all add: no_source_files_def)
next
  assume c: "ServerCall preview_rows \<in> set (preview_click ce re sd)"
  have m: "missing_fields sd = []"
  proof (rule ccontr)
    assume "missing_fields sd \<noteq> []"
    from preview_click_incomplete [OF this, of ce re] c show False by simp
  qed
  then show "fst (has_min_mapping sd)" by (simp add: has_min_mapping_fst)
  from m show "truthy (st_source_file sd)" by (rule missing_fields_source_file)
qed

theorem parse_needs_source_file_witness:
  "no_source_files (example_checkin_run (Some ''Draft'') (Some [])) \<and>
   parse_data_click (example_checkin_run (Some ''Draft'') (Some [])) =
     [Msgprint ''Add at least one source file (in the Source Files table) before parsing.''] \<and>
   ServerCall parse_source \<in> set (parse_data_click (example_checkin_run (Some ''Draft'') (Some [Some ''/files/events.csv'']))) \<and>
   ServerCall preview_rows \<in> set (preview_click None None example_statement_run_ok) \<and>
   truthy (st_source_file example_statement_run_ok)"
proof -
  have a: "no_source_files (example_checkin_run (Some ''Draft'') (Some []))"
    by (simp add: no_source_files_def example_checkin_run_def)
  have b: "ServerCall parse_source \<in> set (parse_data_click (example_checkin_run (Some ''Draft'') (Some [Some ''/files/events.csv''])))"
    by (simp add: parse_data_click_def no_source_files_def example_checkin_run_def)
  have c: "ServerCall preview_rows \<in> set (preview_click None None example_statement_run_ok)"
    by (rule preview_click_complete)
       (simp add: example_statement_run_ok_def missing_fields_def push_if_missing_def truthy_def)
  from parse_needs_source_file [of "example_checkin_run (Some ''Draft'') (Some [])" None None example_statement_run_ok]
  show ?thesis using a b c by simp
qed


section \<open>Locks, offered operations and preview: properties\<close>

lemma toLowerCase_status_name:
  "toLowerCase (status_name s) =
     (case s of Draft \<Rightarrow> ''draft'' | Parsed \<Rightarrow> ''parsed'' | Imported \<Rightarrow> ''imported''
      | Failed \<Rightarrow> ''failed'')"
proof (cases s)
  case Draft
  have "toLowerCase ''Draft'' = ''draft''" by code_simp
  with Draft show ?thesis by simp
next
  case Parsed
  have "toLowerCase ''Parsed'' = ''parsed''" by code_simp
  with Parsed show ?thesis by simp
next
  case Imported
  have "toLowerCase ''Imported'' = ''imported''" by code_simp
  with Imported show ?thesis by simp
next
  case Failed
  have "toLowerCase ''Failed'' = ''failed''" by code_simp
  with Failed show ?thesis by simp
qed

lemma cr_status_lower_cases:
  assumes "cr_status d = Some (status_name s)"
  shows "(cr_status_lower d = ''imported'') = (s = Imported)"
    and "(cr_status_lower d = ''parsed'') = (s = Parsed)"
proof -
  have l: "cr_status_lower d = toLowerCase (status_name s)"
    using assms by (simp add: cr_status_lower_def)
  show "(cr_status_lower d = ''imported'') = (s = Imported)"
    unfolding l toLowerCase_status_name by (cases s) simp_all
  show "(cr_status_lower d = ''parsed'') = (s = Parsed)"
    unfolding l toLowerCase_status_name by (cases s) simp_all
qed

lemma status_name_eq:
  "(status_name s = ''Imported'') = (s = Imported)"
  "(status_name s = ''Parsed'') = (s = Parsed)"
  "(status_name s = ''Draft'') = (s = Draft)"
  by (cases s, simp_all)+

lemma frozen_iff: "cr_status d = Some (status_name s) \<Longrightarrow> frozen d = (s = Imported)"
  by (simp add: frozen_def cr_status_lower_cases)

lemma enforce_locks_parent:
  "cr_read_only (enforce_locks frm) ''cutoff_time'' = frozen (cr_doc frm)"
  "cr_read_only (enforce_locks frm) ''log_window_seconds'' = frozen (cr_doc frm)"
  by (simp_all add: enforce_locks_def Let_def split: option.splits)

lemma enforce_locks_grid:
  assumes "cr_grid frm = Some g"
  shows "cr_grid (enforce_locks frm) =
           Some (g\<lparr> cannot_add_rows := frozen (cr_doc frm),
                     cannot_delete_rows := frozen (cr_doc frm),
                     grid_add_row_shown := \<not> frozen (cr_doc frm),
                     grid_remove_rows_shown := \<not> frozen (cr_doc frm),
                     file_read_only := frozen (cr_doc frm),
                     clear_controls_shown := \<not> frozen (cr_doc frm),
                     click_lock_bound := frozen (cr_doc frm) \<rparr>)"
  using assms by (simp add: enforce_locks_def Let_def)

lemma enforce_import_lock_listed:
  assumes "fn \<in> set fields_to_lock" and "st_has_field frm fn"
  shows "st_read_only (enforce_import_lock frm) fn = isImported (st_doc frm)"
  using assms by (auto simp: enforce_import_lock_def fields_to_lock_def Let_def)

lemma enforce_import_lock_other:
  assumes "fn \<notin> set fields_to_lock"
  shows "st_read_only (enforce_import_lock frm) fn = st_read_only frm fn"
  using assms by (simp add: enforce_import_lock_def fields_to_lock_def Let_def)

lemma isImported_iff: "st_status d = Some (status_name t) \<Longrightarrow> isImported d = (t = Imported)"
  by (simp add: isImported_def status_name_eq)

lemma lockParent_iff:
  "ir_status d = Some (status_name u) \<Longrightarrow> lockParent d = (u = Parsed \<or> u = Imported)"
  by (simp add: lockParent_def status_name_eq)

text \<open>
  The claim of C2 as it is worded fails in two ways. On an imported Statement Run the lock
  leaves the mapping columns as they are: \<open>date_column\<close>, \<open>description_column\<close>,
  \<open>amount_column\<close>, \<open>credit_column\<close> and \<open>debit_column\<close> are not made read-only. On an
  Invoice Run the lock holds already when the status is \<open>Parsed\<close>, where \<open>supplier\<close> and
  \<open>duplicate_check_by\<close> are disabled; and when it is \<open>Imported\<close> the script does nothing to
  the source-file table, and the file of a row in status \<open>Error\<close> can still be cleared.
\<close>

theorem import_lock_counterexample:
  "isImported example_statement_run_ok \<and>
   \<not> st_read_only (enforce_import_lock (example_statement_frm example_statement_run_ok)) ''date_column'' \<and>
   \<not> st_read_only (enforce_import_lock (example_statement_frm example_statement_run_ok)) ''description_column'' \<and>
   \<not> st_read_only (enforce_import_lock (example_statement_frm example_statement_run_ok)) ''amount_column'' \<and>
   \<not> st_read_only (enforce_import_lock (example_statement_frm example_statement_run_ok)) ''credit_column'' \<and>
   \<not> st_read_only (enforce_import_lock (example_statement_frm example_statement_run_ok)) ''debit_column'' \<and>
   ir_status (example_invoice_run (Some ''Parsed'') None) \<noteq> Some ''Imported'' \<and>
   lockParent (example_invoice_run (Some ''Parsed'') None) \<and>
   toggle_enable (example_invoice_run (Some ''Parsed'') None) ''supplier'' = Some False \<and>
   toggle_enable (example_invoice_run (Some ''Parsed'') None) ''duplicate_check_by'' = Some False \<and>
   toggle_enable (example_invoice_run (Some ''Imported'') None) ''source_files'' = None \<and>
   \<not> hides_clear_button (Some ''Error'')"
  by (simp add: example_invoice_run_def lockParent_def toggle_enable_def hides_clear_button_def
      isImported_def example_statement_run_ok_def example_statement_frm_def
      enforce_import_lock_def fields_to_lock_def Let_def)

text \<open>
  C2, amended. On a Checkin Run the lock holds exactly when the status is \<open>Imported\<close>:
  then and only then \<open>cutoff_time\<close>, \<open>log_window_seconds\<close> and the column \<open>file\<close> of the
  source files are read-only, rows of the source-file table can be neither added nor
  deleted, and the controls that clear an attached file are hidden. On a Statement Run
  each of \<open>bank_account\<close>, \<open>statement_start\<close>, \<open>statement_end\<close>, \<open>source_file\<close> and
  \<open>lock_mapping_fields\<close> that exists on the form is read-only exactly when the status is
  \<open>Imported\<close>, and Save is visible exactly when it is not; the lock touches no other
  field, so the mapping columns stay as editable as they were. In every other status,
  \<open>Failed\<close> included, the locked fields are editable. On an Invoice Run the lock of
  \<open>supplier\<close> and \<open>duplicate_check_by\<close> holds when the status is \<open>Parsed\<close> or \<open>Imported\<close>,
  and the script sets no lock on the source-file table.
\<close>

theorem lock_exactly_when_imported:
  assumes "cr_status (cr_doc frm) = Some (status_name s)"
    and "st_status (st_doc sfrm) = Some (status_name t)"
    and "ir_status idoc = Some (status_name u)"
  shows "frozen (cr_doc frm) = (s = Imported) \<and>
         cr_read_only (enforce_locks frm) ''cutoff_time'' = (s = Imported) \<and>
         cr_read_only (enforce_locks frm) ''log_window_seconds'' = (s = Imported) \<and>
         (\<forall>g. cr_grid frm = Some g \<longrightarrow>
            (\<exists>g'. cr_grid (enforce_locks frm) = Some g' \<and>
                  cannot_add_rows g' = (s = Imported) \<and>
                  cannot_delete_rows g' = (s = Imported) \<and>
                  file_read_only g' = (s = Imported) \<and>
                  click_lock_bound g' = (s = Imported) \<and>
                  clear_controls_shown g' = (s \<noteq> Imported) \<and>
                  grid_add_row_shown g' = (s \<noteq> Imported) \<and>
                  grid_remove_rows_shown g' = (s \<noteq> Imported))) \<and>
         isImported (st_doc sfrm) = (t = Imported) \<and>
         (\<forall>fn \<in> set fields_to_lock. st_has_field sfrm fn \<longrightarrow>
            st_read_only (enforce_import_lock sfrm) fn = (t = Imported)) \<and>
         (\<forall>fn. fn \<notin> set fields_to_lock \<longrightarrow>
            st_read_only (enforce_import_lock sfrm) fn = st_read_only sfrm fn) \<and>
         st_primary_action_visible (enforce_import_lock sfrm) =
           map_option (\<lambda>v. t \<noteq> Imported) (st_primary_action_visible sfrm) \<and>
         (\<forall>fn \<in> set mapping_columns.
            st_read_only (enforce_import_lock sfrm) fn = st_read_only sfrm fn) \<and>
         lockParent idoc = (u = Parsed \<or> u = Imported) \<and>
         toggle_enable idoc ''supplier'' = Some (u \<noteq> Parsed \<and> u \<noteq> Imported) \<and>
         toggle_enable idoc ''duplicate_check_by'' = Some (u \<noteq> Parsed \<and> u \<noteq> Imported) \<and>
         toggle_enable idoc ''source_files'' = None"
proof -
  note fz = frozen_iff [OF assms(1)]
  note im = isImported_iff [OF assms(2)]
  note lp = lockParent_iff [OF assms(3)]
  have parent: "cr_read_only (enforce_locks frm) ''cutoff_time'' = (s = Imported)"
    "cr_read_only (enforce_locks frm) ''log_window_seconds'' = (s = Imported)"
    by (simp_all add: enforce_locks_parent fz)
  have grid: "\<forall>g. cr_grid frm = Some g \<longrightarrow>
            (\<exists>g'. cr_grid (enforce_locks frm) = Some g' \<and>
                  cannot_add_rows g' = (s = Imported) \<and>
                  cannot_delete_rows g' = (s = Imported) \<and>
                  file_read_only g' = (s = Imported) \<and>
                  click_lock_bound g' = (s = Imported) \<and>
                  clear_controls_shown g' = (s \<noteq> Imported) \<and>
                  grid_add_row_shown g' = (s \<noteq> Imported) \<and>
                  grid_remove_rows_shown g' = (s \<noteq> Imported))"
    by (intro allI impI) (simp add: enforce_locks_grid fz)
  have listed: "\<forall>fn \<in> set fields_to_lock. st_has_field sfrm fn \<longrightarrow>
            st_read_only (enforce_import_lock sfrm) fn = (t = Imported)"
    by (intro ballI impI) (simp add: enforce_import_lock_listed im)
  have other: "\<forall>fn. fn \<notin> set fields_to_lock \<longrightarrow>
            st_read_only (enforce_import_lock sfrm) fn = st_read_only sfrm fn"
    by (intro allI impI) (rule enforce_import_lock_other)
  have save: "st_primary_action_visible (enforce_import_lock sfrm) =
           map_option (\<lambda>v. t \<noteq> Imported) (st_primary_action_visible sfrm)"
    by (simp add: enforce_import_lock_def Let_def im)
  have inv: "toggle_enable idoc ''supplier'' = Some (u \<noteq> Parsed \<and> u \<noteq> Imported)"
    "toggle_enable idoc ''duplicate_check_by'' = Some (u \<noteq> Parsed \<and> u \<noteq> Imported)"
    "toggle_enable idoc ''source_files'' = None"
    by (simp_all add: toggle_enable_def lp)
  have columns: "\<forall>fn \<in> set mapping_columns.
            st_read_only (enforce_import_lock sfrm) fn = st_read_only sfrm fn"
  proof
    fix fn assume "fn \<in> set mapping_columns"
    then have "fn \<notin> set fields_to_lock"
      by (auto simp: mapping_columns_def fields_to_lock_def)
    then show "st_read_only (enforce_import_lock sfrm) fn = st_read_only sfrm fn"
      by (rule enforce_import_lock_other)
  qed
  from fz parent grid im listed other save columns lp inv show ?thesis by blast
qed

theorem lock_exactly_when_imported_witness:
  "frozen (cr_doc (example_checkin_frm (Some ''Imported''))) \<and>
   cr_read_only (enforce_locks (example_checkin_frm (Some ''Imported''))) ''cutoff_time'' \<and>
   (\<exists>g'. cr_grid (enforce_locks (example_checkin_frm (Some ''Imported''))) = Some g' \<and>
         cannot_add_rows g' \<and> cannot_delete_rows g' \<and> file_read_only g') \<and>
   st_read_only (enforce_import_lock (example_statement_frm example_statement_run_ok)) ''source_file'' \<and>
   \<not> st_read_only (enforce_import_lock (example_statement_frm example_statement_run_ok)) ''date_column'' \<and>
   lockParent (example_invoice_run (Some ''Parsed'') None)"
proof -
  let ?frm = "example_checkin_frm (Some ''Imported'')"
  let ?sfrm = "example_statement_frm example_statement_run_ok"
  let ?idoc = "example_invoice_run (Some ''Parsed'') None"
  have a: "cr_status (cr_doc ?frm) = Some (status_name Imported)"
    by (simp add: example_checkin_frm_def example_checkin_run_def)
  have b: "st_status (st_doc ?sfrm) = Some (status_name Imported)"
    by (simp add: example_statement_frm_def example_statement_run_ok_def)
  have c: "ir_status ?idoc = Some (status_name Parsed)"
    by (simp add: example_invoice_run_def)
  have g: "cr_grid ?frm = Some example_grid"
    by (simp add: example_checkin_frm_def)
  have f: "''source_file'' \<in> set fields_to_lock" "''date_column'' \<notin> set fields_to_lock"
    "st_has_field ?sfrm ''source_file''" "\<not> st_read_only ?sfrm ''date_column''"
    by (simp_all add: fields_to_lock_def example_statement_frm_def)
  from lock_exactly_when_imported [OF a b c] g f show ?thesis
    by auto
qed

lemma checkin_buttons_parse:
  assumes "cr_status d = Some (status_name s)"
  shows "(''Parse Data'' \<in> set (checkin_run_buttons d)) = (s = Draft \<or> s = Failed)"
  using cr_status_lower_cases [OF assms]
  by (cases s) (simp_all add: checkin_run_buttons_def add_parse_button_def add_preview_button_def
      add_generate_action_def Let_def)

lemma checkin_buttons_generate:
  assumes "cr_status d = Some (status_name s)"
  shows "(''Create Employee Checkins'' \<in> set (checkin_run_buttons d)) = (s = Parsed)"
  using cr_status_lower_cases [OF assms]
  by (cases s) (simp_all add: checkin_run_buttons_def add_parse_button_def add_preview_button_def
      add_generate_action_def Let_def)

lemma statement_buttons_generate:
  assumes "st_status d = Some (status_name t)"
  shows "(''Create Bank Transactions'' \<in> set (statement_run_buttons False d)) = (t = Parsed)"
  using assms
  by (simp add: statement_run_buttons_def add_formatter_buttons_def status_name_eq)

lemma preview_rows_subset: "set (pv_rows (preview rows offset limit descending)) \<subseteq> set rows"
proof -
  have "set (take limit (drop offset xs)) \<subseteq> set xs" for xs :: "'a canonical_row list"
    by (meson set_take_subset set_drop_subset subset_trans)
  from this [of "if descending then rev (sort_key ordering_key rows) else sort_key ordering_key rows"]
  show ?thesis by (simp add: preview_def Let_def split: if_splits)
qed

lemma preview_all_rows:
  "mset (pv_rows (preview rows 0 (length rows) descending)) = mset rows"
  by (simp add: preview_def Let_def)

lemma method_kinds:
  "is_parse_call (ServerCall parse_source)"
  "is_parse_call (ServerCall preview_rows)"
  "is_parse_call (ServerCall parse_files)"
  "\<not> is_parse_call (ServerCall generate_checkins)"
  "\<not> is_parse_call (ServerCall create_bank_transactions)"
  "\<not> is_parse_call (ServerCall create_purchase_invoices)"
  "\<not> is_parse_call (ServerCall cr_preview)"
  "\<not> is_parse_call (ServerCall get_preview_html)"
  "is_generate_call (ServerCall generate_checkins)"
  "is_generate_call (ServerCall create_bank_transactions)"
  "is_generate_call (ServerCall create_purchase_invoices)"
  "\<not> is_generate_call (ServerCall parse_source)"
  "\<not> is_generate_call (ServerCall preview_rows)"
  "\<not> is_generate_call (ServerCall parse_files)"
  "\<not> is_generate_call (ServerCall cr_preview)"
  "\<not> is_generate_call (ServerCall get_preview_html)"
  by (simp_all add: is_parse_call_def is_generate_call_def parse_source_def preview_rows_def
      parse_files_def generate_checkins_def create_bank_transactions_def
      create_purchase_invoices_def cr_preview_def get_preview_html_def)

lemma other_effect_kinds:
  "\<not> is_parse_call (Msgprint x)" "\<not> is_parse_call ReloadDoc" "\<not> is_parse_call (ShowDialog x)"
  "\<not> is_parse_call (ShowAlert x)" "\<not> is_parse_call (Freeze x)" "\<not> is_parse_call Unfreeze"
  "\<not> is_parse_call ClearCustomButtons" "\<not> is_parse_call (SetStatus x)"
  "\<not> is_generate_call (Msgprint x)" "\<not> is_generate_call ReloadDoc" "\<not> is_generate_call (ShowDialog x)"
  "\<not> is_generate_call (ShowAlert x)" "\<not> is_generate_call (Freeze x)" "\<not> is_generate_call Unfreeze"
  "\<not> is_generate_call ClearCustomButtons" "\<not> is_generate_call (SetStatus x)"
  by (simp_all add: is_parse_call_def is_generate_call_def)

lemma spec_server_methods:
  "spec_server oc parse_source run = server_parse oc run"
  "spec_server oc preview_rows run = server_parse oc run"
  "spec_server oc parse_files run = server_parse oc run"
  "spec_server oc generate_checkins run = server_generate oc run"
  "spec_server oc create_bank_transactions run = server_generate oc run"
  "spec_server oc create_purchase_invoices run = server_generate oc run"
  "spec_server oc cr_preview run = run"
  "spec_server oc get_preview_html run = run"
  by (simp_all add: spec_server_def method_kinds server_preview_def)

lemma server_parse_status:
  "sv_status (server_parse oc run) = sv_status run \<or>
   rank (sv_status run) < rank (sv_status (server_parse oc run)) \<or>
   (sv_status run = Failed \<and> sv_status (server_parse oc run) = Draft)"
  by (cases "sv_status run") (simp_all add: server_parse_def)

lemma server_generate_status:
  "sv_status (server_generate oc run) = sv_status run \<or>
   rank (sv_status run) < rank (sv_status (server_generate oc run))"
  by (cases "sv_status run") (simp_all add: server_generate_def)

lemma spec_server_status:
  "sv_status (spec_server oc m run) = sv_status run \<or>
   rank (sv_status run) < rank (sv_status (spec_server oc m run)) \<or>
   (sv_status run = Failed \<and> sv_status (spec_server oc m run) = Draft \<and> is_parse_call (ServerCall m))"
  using server_parse_status [of oc run] server_generate_status [of oc run]
  by (auto simp: spec_server_def server_preview_def)

lemma checkin_click_parse:
  "list_ex is_parse_call (checkin_click label d) =
     (label = ''Parse Data'' \<and> ''Parse Data'' \<in> set (checkin_run_buttons d) \<and> \<not> no_source_files d)"
  by (auto simp: checkin_click_def parse_data_click_def preview_data_click_def
      open_preview_dialog_def create_employee_checkins_click_def method_kinds other_effect_kinds)

lemma checkin_click_generate:
  "list_ex is_generate_call (checkin_click label d) =
     (label = ''Create Employee Checkins'' \<and> ''Create Employee Checkins'' \<in> set (checkin_run_buttons d))"
  by (auto simp: checkin_click_def parse_data_click_def preview_data_click_def
      open_preview_dialog_def create_employee_checkins_click_def method_kinds other_effect_kinds)

lemma checkin_system_click_cases:
  "checkin_system_click oc label (d, run) =
     (if list_ex is_parse_call (checkin_click label d)
      then (reload_checkin (server_parse oc run) d, server_parse oc run)
      else if list_ex is_generate_call (checkin_click label d)
      then (reload_checkin (server_generate oc run) d, server_generate oc run)
      else (d, run))"
  unfolding checkin_click_parse checkin_click_generate
  by (simp add: checkin_system_click_def checkin_click_def parse_data_click_def preview_data_click_def
      open_preview_dialog_def create_employee_checkins_click_def run_effects_def spec_server_methods)


lemma checkin_click_set_status: "\<not> list_ex is_set_status (checkin_click label d)"
  by (simp add: checkin_click_def parse_data_click_def preview_data_click_def
      open_preview_dialog_def create_employee_checkins_click_def)

lemma statement_click_parse:
  "list_ex is_parse_call (statement_click is_new ce re label d) =
     (label = ''Preview'' \<and> \<not> is_new \<and> fst (has_min_mapping d))"
  by (auto simp: statement_click_def statement_run_buttons_def add_formatter_buttons_def
      preview_click_def has_min_mapping_def Let_def create_bank_transactions_click_def
      method_kinds other_effect_kinds split: option.splits)

lemma statement_click_generate:
  "list_ex is_generate_call (statement_click is_new ce re label d) =
     (label = ''Create Bank Transactions'' \<and> \<not> is_new \<and> st_status d = Some ''Parsed'')"
  by (auto simp: statement_click_def statement_run_buttons_def add_formatter_buttons_def
      preview_click_def has_min_mapping_def Let_def create_bank_transactions_click_def
      method_kinds other_effect_kinds split: option.splits)

lemma statement_click_set_status:
  "filter is_set_status (statement_click is_new ce re label d) =
     (if label = ''Create Bank Transactions'' \<and> \<not> is_new \<and> st_status d = Some ''Parsed'' \<and> ce = None
      then [SetStatus ''Imported''] else [])"
  by (auto simp: statement_click_def statement_run_buttons_def add_formatter_buttons_def
      preview_click_def has_min_mapping_def Let_def create_bank_transactions_click_def
      split: option.splits)

lemma statement_system_click_run:
  "snd (statement_system_click oc is_new ce re label (d, run)) =
     (if list_ex is_parse_call (statement_click is_new ce re label d) then server_parse oc run
      else if list_ex is_generate_call (statement_click is_new ce re label d)
      then server_generate oc run
      else run)"
  unfolding statement_click_parse statement_click_generate
  by (auto simp: statement_system_click_def statement_click_def statement_run_buttons_def
      add_formatter_buttons_def preview_click_def has_min_mapping_def Let_def
      create_bank_transactions_click_def run_effects_def spec_server_methods
      split: option.splits)

lemma invoice_click_parse:
  "list_ex is_parse_call (invoice_click ce label d) =
     (label = ''Parse Data'' \<and> ''Parse Data'' \<in> set (invoice_run_buttons d))"
  by (auto simp: invoice_click_def invoice_parse_click_def invoice_preview_click_def
      create_purchase_invoices_click_def method_kinds other_effect_kinds split: option.splits)

lemma invoice_click_generate:
  "list_ex is_generate_call (invoice_click ce label d) =
     (label = ''Create Purchase Invoices'' \<and> ''Create Purchase Invoices'' \<in> set (invoice_run_buttons d))"
  by (auto simp: invoice_click_def invoice_parse_click_def invoice_preview_click_def
      create_purchase_invoices_click_def method_kinds other_effect_kinds split: option.splits)

lemma invoice_click_set_status: "\<not> list_ex is_set_status (invoice_click ce label d)"
  by (simp add: invoice_click_def invoice_parse_click_def invoice_preview_click_def
      create_purchase_invoices_click_def split: option.splits)

lemma invoice_system_click_run:
  "snd (invoice_system_click oc ce label (d, run)) =
     (if list_ex is_parse_call (invoice_click ce label d) then server_parse oc run
      else if list_ex is_generate_call (invoice_click ce label d) then server_generate oc run
      else run)"
  unfolding invoice_click_parse invoice_click_generate
  by (auto simp: invoice_system_click_def invoice_click_def invoice_parse_click_def
      invoice_preview_click_def create_purchase_invoices_click_def run_effects_def
      spec_server_methods split: option.splits)

lemma invoice_buttons_parse:
  assumes "ir_status d = Some (status_name u)"
  shows "(''Parse Data'' \<in> set (invoice_run_buttons d)) = (u = Draft \<or> hasDraftOrErrorChild d)"
  using assms by (simp add: invoice_run_buttons_def status_name_eq)

lemma invoice_buttons_generate:
  assumes "ir_status d = Some (status_name u)"
  shows "(''Create Purchase Invoices'' \<in> set (invoice_run_buttons d)) = (u = Parsed \<or> has_ready_rows d)"
  using assms by (auto simp: invoice_run_buttons_def status_name_eq)

lemma transition_parse_iff: "(\<exists>ok s'. transition s Parse ok = Some s') = (s = Draft \<or> s = Failed)"
proof (cases s)
  case Draft
  have "transition Draft Parse True = Some Parsed" by simp
  with Draft show ?thesis by blast
qed simp_all

lemma transition_generate_iff: "(\<exists>ok s'. transition s Generate ok = Some s') = (s = Parsed)"
  by (cases s) simp_all

lemma checkin_system_click_imported:
  "sv_status (snd ds) = Imported \<Longrightarrow> sv_status (snd (checkin_system_click oc label ds)) = Imported"
  by (cases ds) (simp add: checkin_system_click_cases server_parse_def server_generate_def)

lemma checkin_session_imported:
  "sv_status (snd ds) = Imported \<Longrightarrow> sv_status (snd (checkin_session clicks ds)) = Imported"
proof (induction clicks arbitrary: ds)
  case Nil
  then show ?case by (simp add: checkin_session_def)
next
  case (Cons c clicks)
  from Cons.IH [OF checkin_system_click_imported [OF Cons.prems, of "fst c" "snd c"]]
  show ?case by (simp add: checkin_session_def)
qed


text \<open>
  The claim of C3 as it is worded fails on a Statement Run and on an Invoice Run. The
  button \<open>Preview\<close> of a Statement Run, whose handler parses the statement again, is on the
  form of an imported Run and sends its request. On an imported Invoice Run with ready
  rows counted, \<open>Create Purchase Invoices\<close> is offered and sends its request; with a
  source-file row in status \<open>Error\<close>, \<open>Parse Data\<close> is offered and sends its request; and on
  a failed Invoice Run without such a row \<open>Parse Data\<close> is not offered.
\<close>

theorem offered_operations_counterexample:
  "st_status example_statement_run_ok = Some ''Imported'' \<and>
   ''Preview'' \<in> set (statement_run_buttons False example_statement_run_ok) \<and>
   list_ex is_parse_call (statement_click False None None ''Preview'' example_statement_run_ok) \<and>
   ir_status (example_invoice_run (Some ''Imported'') (Some 3)) = Some ''Imported'' \<and>
   ''Create Purchase Invoices'' \<in> set (invoice_run_buttons (example_invoice_run (Some ''Imported'') (Some 3))) \<and>
   list_ex is_generate_call
     (invoice_click None ''Create Purchase Invoices'' (example_invoice_run (Some ''Imported'') (Some 3))) \<and>
   ir_status (example_invoice_run_error (Some ''Imported'')) = Some ''Imported'' \<and>
   ''Parse Data'' \<in> set (invoice_run_buttons (example_invoice_run_error (Some ''Imported''))) \<and>
   list_ex is_parse_call (invoice_click None ''Parse Data'' (example_invoice_run_error (Some ''Imported''))) \<and>
   ir_status (example_invoice_run (Some ''Failed'') None) = Some ''Failed'' \<and>
   ''Parse Data'' \<notin> set (invoice_run_buttons (example_invoice_run (Some ''Failed'') None))"
proof -
  have a: "''Preview'' \<in> set (statement_run_buttons False example_statement_run_ok)"
    by (simp add: statement_run_buttons_def add_formatter_buttons_def)
  have b: "fst (has_min_mapping example_statement_run_ok)"
    by (simp add: example_statement_run_ok_def has_min_mapping_def missing_fields_def
        push_if_missing_def truthy_def)
  have c: "''Create Purchase Invoices'' \<in> set (invoice_run_buttons (example_invoice_run (Some ''Imported'') (Some 3)))"
    by (simp add: example_invoice_run_def invoice_run_buttons_def has_ready_rows_def)
  have d: "''Parse Data'' \<in> set (invoice_run_buttons (example_invoice_run_error (Some ''Imported'')))"
    by (simp add: example_invoice_run_error_def invoice_run_buttons_def hasDraftOrErrorChild_def)
  have e: "''Parse Data'' \<notin> set (invoice_run_buttons (example_invoice_run (Some ''Failed'') None))"
    by (simp add: example_invoice_run_def invoice_run_buttons_def hasDraftOrErrorChild_def
        has_ready_rows_def)
  have f: "st_status example_statement_run_ok = Some ''Imported''"
    "ir_status (example_invoice_run (Some ''Imported'') (Some 3)) = Some ''Imported''"
    "ir_status (example_invoice_run_error (Some ''Imported'')) = Some ''Imported''"
    "ir_status (example_invoice_run (Some ''Failed'') None) = Some ''Failed''"
    by (simp_all add: example_statement_run_ok_def example_invoice_run_def example_invoice_run_error_def)
  show ?thesis
    using a b c d e f by (simp add: statement_click_parse invoice_click_parse invoice_click_generate)
qed

text \<open>
  C3, amended. With the server methods as the specification has them, the status of
  every Run only advances along \<open>Draft -> Parsed -> {Imported, Failed}\<close>: whatever button of
  whatever of the three forms is clicked, the status of the Run afterwards is the same,
  or further along, or it was \<open>Failed\<close> and is \<open>Draft\<close>, and then the click was one that
  requests a parse; nothing that the scripts do without a click assigns a status, and an
  imported Run stays imported through every session. On a Checkin Run the parse operation
  is offered in \<open>Draft\<close> and \<open>Failed\<close> but not in \<open>Parsed\<close> or \<open>Imported\<close> and the generate
  operation only in \<open>Parsed\<close>, which are the statuses in which the Run State Machine
  accepts them. On a saved Statement Run the generate operation is offered only in
  \<open>Parsed\<close>, and the script sets the status to \<open>Imported\<close> only after a successful
  generation; its button \<open>Preview\<close>, which parses again when the mapping is complete, is
  offered in every status. On an Invoice Run the parse operation is offered exactly when
  the status is \<open>Draft\<close> or a source-file row is in status \<open>Draft\<close> or \<open>Error\<close>, and the
  generate operation exactly when the status is \<open>Parsed\<close> or the ready count is positive.
\<close>

theorem offered_operations_follow_status:
  assumes "cr_status d = Some (status_name s)"
    and "st_status sd = Some (status_name t)"
    and "ir_status idoc = Some (status_name u)"
  shows "(''Parse Data'' \<in> set (checkin_run_buttons d)) = (s = Draft \<or> s = Failed) \<and>
         (''Create Employee Checkins'' \<in> set (checkin_run_buttons d)) = (s = Parsed) \<and>
         (''Parse Data'' \<in> set (checkin_run_buttons d)) = (\<exists>ok s'. transition s Parse ok = Some s') \<and>
         (''Create Employee Checkins'' \<in> set (checkin_run_buttons d)) =
           (\<exists>ok s'. transition s Generate ok = Some s') \<and>
         (list_ex is_parse_call (checkin_click label d) \<longrightarrow>
            label = ''Parse Data'' \<and> (s = Draft \<or> s = Failed)) \<and>
         (list_ex is_generate_call (checkin_click label d) \<longrightarrow>
            label = ''Create Employee Checkins'' \<and> s = Parsed) \<and>
         \<not> list_ex is_set_status (checkin_click label d) \<and>
         cr_doc (enforce_locks frm) = cr_doc frm \<and>
         (''Create Bank Transactions'' \<in> set (statement_run_buttons False sd)) = (t = Parsed) \<and>
         ''Preview'' \<in> set (statement_run_buttons False sd) \<and>
         list_ex is_parse_call (statement_click is_new ce re slabel sd) =
           (slabel = ''Preview'' \<and> \<not> is_new \<and> fst (has_min_mapping sd)) \<and>
         list_ex is_generate_call (statement_click is_new ce re slabel sd) =
           (slabel = ''Create Bank Transactions'' \<and> \<not> is_new \<and> t = Parsed) \<and>
         filter is_set_status (statement_click is_new ce re slabel sd) =
           (if slabel = ''Create Bank Transactions'' \<and> \<not> is_new \<and> t = Parsed \<and> ce = None
            then [SetStatus (status_name Imported)] else []) \<and>
         st_doc (enforce_import_lock sfrm) = st_doc sfrm \<and>
         (''Parse Data'' \<in> set (invoice_run_buttons idoc)) = (u = Draft \<or> hasDraftOrErrorChild idoc) \<and>
         (''Create Purchase Invoices'' \<in> set (invoice_run_buttons idoc)) =
           (u = Parsed \<or> has_ready_rows idoc) \<and>
         \<not> list_ex is_set_status (invoice_click ice ilabel idoc) \<and>
         (sv_status (snd (checkin_system_click oc label (d, run))) = sv_status run \<or>
          rank (sv_status run) < rank (sv_status (snd (checkin_system_click oc label (d, run)))) \<or>
          (sv_status run = Failed \<and>
           sv_status (snd (checkin_system_click oc label (d, run))) = Draft \<and>
           label = ''Parse Data'' \<and> (s = Draft \<or> s = Failed))) \<and>
         (cr_status (fst (checkin_system_click oc label (d, run))) = cr_status d \<or>
          cr_status (fst (checkin_system_click oc label (d, run))) =
            Some (status_name (sv_status (snd (checkin_system_click oc label (d, run)))))) \<and>
         (sv_status (snd (statement_system_click oc is_new ce re slabel (sd, run))) = sv_status run \<or>
          rank (sv_status run) < rank (sv_status (snd (statement_system_click oc is_new ce re slabel (sd, run)))) \<or>
          (sv_status run = Failed \<and>
           sv_status (snd (statement_system_click oc is_new ce re slabel (sd, run))) = Draft \<and>
           slabel = ''Preview'')) \<and>
         (sv_status (snd (invoice_system_click oc ice ilabel (idoc, run))) = sv_status run \<or>
          rank (sv_status run) < rank (sv_status (snd (invoice_system_click oc ice ilabel (idoc, run)))) \<or>
          (sv_status run = Failed \<and>
           sv_status (snd (invoice_system_click oc ice ilabel (idoc, run))) = Draft \<and>
           ilabel = ''Parse Data'' \<and> (u = Draft \<or> hasDraftOrErrorChild idoc))) \<and>
         (sv_status run = Imported \<longrightarrow>
            sv_status (snd (checkin_session clicks (d, run))) = Imported)"
proof -
  note bp = checkin_buttons_parse [OF assms(1)]
  note bg = checkin_buttons_generate [OF assms(1)]
  note ip = invoice_buttons_parse [OF assms(3)]
  have st: "(st_status sd = Some ''Parsed'') = (t = Parsed)"
    using assms(2) by (simp add: status_name_eq)
  have f1: "(''Parse Data'' \<in> set (checkin_run_buttons d)) = (s = Draft \<or> s = Failed)"
    by (rule bp)
  have f2: "(''Create Employee Checkins'' \<in> set (checkin_run_buttons d)) = (s = Parsed)"
    by (rule bg)
  have f3: "(''Parse Data'' \<in> set (checkin_run_buttons d)) = (\<exists>ok s'. transition s Parse ok = Some s')"
    unfolding bp transition_parse_iff ..
  have f4: "(''Create Employee Checkins'' \<in> set (checkin_run_buttons d)) =
           (\<exists>ok s'. transition s Generate ok = Some s')"
    unfolding bg transition_generate_iff ..
  have f5: "list_ex is_parse_call (checkin_click label d) \<longrightarrow>
            label = ''Parse Data'' \<and> (s = Draft \<or> s = Failed)"
    unfolding checkin_click_parse bp by blast
  have f6: "list_ex is_generate_call (checkin_click label d) \<longrightarrow>
            label = ''Create Employee Checkins'' \<and> s = Parsed"
    unfolding checkin_click_generate bg by blast
  have f7: "\<not> list_ex is_set_status (checkin_click label d)"
    by (rule checkin_click_set_status)
  have f8: "cr_doc (enforce_locks frm) = cr_doc frm"
    by (simp add: enforce_locks_def Let_def split: option.splits)
  have f9: "(''Create Bank Transactions'' \<in> set (statement_run_buttons False sd)) = (t = Parsed)"
    by (rule statement_buttons_generate [OF assms(2)])
  have f10: "''Preview'' \<in> set (statement_run_buttons False sd)"
    by (simp add: statement_run_buttons_def add_formatter_buttons_def)
  have f11: "list_ex is_parse_call (statement_click is_new ce re slabel sd) =
           (slabel = ''Preview'' \<and> \<not> is_new \<and> fst (has_min_mapping sd))"
    by (rule statement_click_parse)
  have f12: "list_ex is_generate_call (statement_click is_new ce re slabel sd) =
           (slabel = ''Create Bank Transactions'' \<and> \<not> is_new \<and> t = Parsed)"
    unfolding statement_click_generate st ..
  have f13: "filter is_set_status (statement_click is_new ce re slabel sd) =
           (if slabel = ''Create Bank Transactions'' \<and> \<not> is_new \<and> t = Parsed \<and> ce = None
            then [SetStatus (status_name Imported)] else [])"
    unfolding statement_click_set_status st by simp
  have f14: "st_doc (enforce_import_lock sfrm) = st_doc sfrm"
    by (simp add: enforce_import_lock_def Let_def)
  have f15: "(''Parse Data'' \<in> set (invoice_run_buttons idoc)) = (u = Draft \<or> hasDraftOrErrorChild idoc)"
    by (rule ip)
  have f16: "(''Create Purchase Invoices'' \<in> set (invoice_run_buttons idoc)) =
           (u = Parsed \<or> has_ready_rows idoc)"
    by (rule invoice_buttons_generate [OF assms(3)])
  have f17: "\<not> list_ex is_set_status (invoice_click ice ilabel idoc)"
    by (rule invoice_click_set_status)
  have f18: "sv_status (snd (checkin_system_click oc label (d, run))) = sv_status run \<or>
          rank (sv_status run) < rank (sv_status (snd (checkin_system_click oc label (d, run)))) \<or>
          (sv_status run = Failed \<and>
           sv_status (snd (checkin_system_click oc label (d, run))) = Draft \<and>
           label = ''Parse Data'' \<and> (s = Draft \<or> s = Failed))"
    using server_parse_status [of oc run] server_generate_status [of oc run] f5
    by (auto simp: checkin_system_click_cases)
  have f19: "cr_status (fst (checkin_system_click oc label (d, run))) = cr_status d \<or>
          cr_status (fst (checkin_system_click oc label (d, run))) =
            Some (status_name (sv_status (snd (checkin_system_click oc label (d, run)))))"
    by (simp add: checkin_system_click_cases reload_checkin_def)
  have f20: "sv_status (snd (statement_system_click oc is_new ce re slabel (sd, run))) = sv_status run \<or>
          rank (sv_status run) < rank (sv_status (snd (statement_system_click oc is_new ce re slabel (sd, run)))) \<or>
          (sv_status run = Failed \<and>
           sv_status (snd (statement_system_click oc is_new ce re slabel (sd, run))) = Draft \<and>
           slabel = ''Preview'')"
    using server_parse_status [of oc run] server_generate_status [of oc run] f11
    by (auto simp: statement_system_click_run)
  have f21: "sv_status (snd (invoice_system_click oc ice ilabel (idoc, run))) = sv_status run \<or>
          rank (sv_status run) < rank (sv_status (snd (invoice_system_click oc ice ilabel (idoc, run)))) \<or>
          (sv_status run = Failed \<and>
           sv_status (snd (invoice_system_click oc ice ilabel (idoc, run))) = Draft \<and>
           ilabel = ''Parse Data'' \<and> (u = Draft \<or> hasDraftOrErrorChild idoc))"
    using server_parse_status [of oc run] server_generate_status [of oc run]
      invoice_click_parse [of ice ilabel idoc] ip
    by (auto simp: invoice_system_click_run)
  have f22: "sv_status run = Imported \<longrightarrow>
            sv_status (snd (checkin_session clicks (d, run))) = Imported"
    using checkin_session_imported [of "(d, run)" clicks] by simp
  show ?thesis
    by (intro conjI) (rule f1 f2 f3 f4 f5 f6 f7 f8 f9 f10 f11 f12 f13 f14 f15 f16 f17 f18 f19
        f20 f21 f22)+
qed


theorem offered_operations_follow_status_witness:
  "''Parse Data'' \<in> set (checkin_run_buttons (example_checkin_run (Some ''Failed'') (Some [Some ''/files/events.csv'']))) \<and>
   ''Create Employee Checkins'' \<notin> set (checkin_run_buttons (example_checkin_run (Some ''Failed'') (Some [Some ''/files/events.csv'']))) \<and>
   sv_status (snd (checkin_system_click example_occasion ''Parse Data''
      (example_checkin_run (Some ''Failed'') (Some [Some ''/files/events.csv'']), example_server_run Failed))) = Draft \<and>
   ''Create Bank Transactions'' \<notin> set (statement_run_buttons False example_statement_run_ok) \<and>
   ''Create Purchase Invoices'' \<in> set (invoice_run_buttons (example_invoice_run (Some ''Parsed'') None)) \<and>
   sv_status (snd (checkin_session
      [(example_occasion, ''Parse Data''), (example_occasion, ''Create Employee Checkins'')]
      (example_checkin_run (Some ''Failed'') (Some [Some ''/files/events.csv'']), example_server_run Imported))) = Imported"
proof -
  let ?d = "example_checkin_run (Some ''Failed'') (Some [Some ''/files/events.csv''])"
  let ?clicks = "[(example_occasion, ''Parse Data''), (example_occasion, ''Create Employee Checkins'')]"
  have a: "cr_status ?d = Some (status_name Failed)"
    by (simp add: example_checkin_run_def)
  have b: "st_status example_statement_run_ok = Some (status_name Imported)"
    by (simp add: example_statement_run_ok_def)
  have c: "ir_status (example_invoice_run (Some ''Parsed'') None) = Some (status_name Parsed)"
    by (simp add: example_invoice_run_def)
  note t = offered_operations_follow_status [OF a b c, where label = "''Parse Data''"
      and frm = "example_checkin_frm None" and sfrm = "example_statement_frm example_statement_run_ok"
      and is_new = False and ce = None and re = None and slabel = "''Preview''" and ice = None
      and ilabel = "''Preview''" and oc = example_occasion and run = "example_server_run Imported"
      and clicks = ?clicks]
  have p: "''Parse Data'' \<in> set (checkin_run_buttons ?d)"
    using t by simp
  have f: "\<not> no_source_files ?d"
    by (simp add: no_source_files_def example_checkin_run_def)
  have step: "sv_status (snd (checkin_system_click example_occasion ''Parse Data''
      (?d, example_server_run Failed))) = Draft"
    using p f
    by (simp add: checkin_system_click_cases checkin_click_parse server_parse_def
        example_server_run_def)
  have i: "sv_status (example_server_run Imported) = Imported"
    by (simp add: example_server_run_def)
  from t step i show ?thesis by simp
qed

lemma preview_data_click_state:
  "run_effects server reload assign (d, run) (preview_data_click d) =
     (d, if no_source_files d then run else server cr_preview run)"
  by (simp add: preview_data_click_def open_preview_dialog_def run_effects_def)

lemma invoice_preview_click_state:
  "run_effects server reload assign (d, run) (invoice_preview_click ce d) =
     (d, server get_preview_html run)"
  by (simp add: invoice_preview_click_def run_effects_def split: option.splits)

lemma checkin_previews_fixed: "checkin_previews ocs (d, run) = (d, run)"
  by (induction ocs) (simp_all add: checkin_previews_def preview_data_click_state spec_server_methods)

lemma invoice_previews_fixed: "invoice_previews ce ocs (d, run) = (d, run)"
  by (induction ocs) (simp_all add: invoice_previews_def invoice_preview_click_state spec_server_methods)

lemma preview_clicks_kinds:
  "\<not> list_ex is_parse_call (preview_data_click d)"
  "\<not> list_ex is_generate_call (preview_data_click d)"
  "\<not> list_ex is_parse_call (invoice_preview_click ce i)"
  "\<not> list_ex is_generate_call (invoice_preview_click ce i)"
  by (simp_all add: preview_data_click_def open_preview_dialog_def invoice_preview_click_def
      method_kinds other_effect_kinds split: option.splits)

lemma server_parse_draft:
  "sv_status run = Draft \<Longrightarrow> sources_valid oc \<Longrightarrow>
   server_parse oc run = \<lparr> sv_status = Parsed, sv_rows = normalizer_rows oc \<rparr>"
  by (simp add: server_parse_def)

text \<open>
  The claim of C4 as it is worded fails on a Statement Run: with a complete mapping the
  click on \<open>Preview\<close> requests \<open>preview_rows\<close>, which parses the statement again, and
  reloads the document. With the server methods as the specification has them, the click
  on a draft takes the Run to \<open>Parsed\<close> and replaces its rows.
\<close>

theorem statement_preview_counterexample:
  "fst (has_min_mapping example_statement_run_ok) \<and>
   preview_click None None example_statement_run_ok =
     [Freeze ''Parsing statement...'', ServerCall preview_rows, ReloadDoc,
      ShowDialog ''Bank Statement Preview'', ShowAlert ''Preview ready.'', Unfreeze] \<and>
   is_parse_call (ServerCall preview_rows) \<and>
   touches_run (ServerCall preview_rows) \<and>
   touches_run ReloadDoc \<and>
   statement_system_click example_occasion False None None ''Preview''
       (example_statement_run_draft, example_server_run Draft) =
     (example_statement_run_draft\<lparr> st_status := Some ''Parsed'' \<rparr>,
      \<lparr> sv_status = Parsed, sv_rows = example_rows3 \<rparr>) \<and>
   example_server_run Draft \<noteq> \<lparr> sv_status = Parsed, sv_rows = example_rows3 \<rparr>"
proof -
  have a: "fst (has_min_mapping example_statement_run_ok) \<and>
   preview_click None None example_statement_run_ok =
     [Freeze ''Parsing statement...'', ServerCall preview_rows, ReloadDoc,
      ShowDialog ''Bank Statement Preview'', ShowAlert ''Preview ready.'', Unfreeze] \<and>
   is_parse_call (ServerCall preview_rows) \<and>
   touches_run (ServerCall preview_rows) \<and>
   touches_run ReloadDoc"
    by (simp add: example_statement_run_ok_def has_min_mapping_def missing_fields_def
        push_if_missing_def truthy_def preview_click_def is_parse_call_def touches_run_def)
  have m: "missing_fields example_statement_run_draft = []"
    by (simp add: example_statement_run_draft_def example_statement_run_ok_def missing_fields_def
        push_if_missing_def truthy_def)
  have b: "statement_system_click example_occasion False None None ''Preview''
       (example_statement_run_draft, example_server_run Draft) =
     (example_statement_run_draft\<lparr> st_status := Some ''Parsed'' \<rparr>,
      \<lparr> sv_status = Parsed, sv_rows = example_rows3 \<rparr>)"
    by (simp add: statement_system_click_def statement_click_def statement_run_buttons_def
        add_formatter_buttons_def preview_click_def has_min_mapping_def Let_def m
        run_effects_def spec_server_methods server_parse_def example_server_run_def
        example_occasion_def reload_statement_def)
  have c: "example_server_run Draft \<noteq> \<lparr> sv_status = Parsed, sv_rows = example_rows3 \<rparr>"
    by (simp add: example_server_run_def)
  from a b c show ?thesis by simp
qed

text \<open>
  C4, amended. On a Checkin Run and on an Invoice Run, for every sequence of preview
  calls, preview is read-only. Whatever the server does, the handler leaves the document
  on the form as it is and requests nothing but the preview method, so it never triggers
  a parse or a generation. With the server methods as the specification has them, any
  number of clicks on the preview button leaves the document and the Run as they are, the
  page returned holds rows of the CanonicalRow set of the Run with the total and the
  ready count of that set, a page that spans the whole set holds exactly that set, and
  after a parse the set is the one the Row Normalizer produced in it, however many
  previews follow. On a Statement Run, \<open>Preview\<close> parses again whenever the validator
  passes.
\<close>

theorem preview_is_read_only:
  "run_effects server reload assign (d, run) (preview_data_click d) =
     (d, if no_source_files d then run else server cr_preview run) \<and>
   run_effects iserver ireload iassign (idoc, irun) (invoice_preview_click ce idoc) =
     (idoc, iserver get_preview_html irun) \<and>
   checkin_click ''Preview Data'' d = preview_data_click d \<and>
   (''Preview'' \<in> set (invoice_run_buttons idoc) \<longrightarrow>
      invoice_click ce ''Preview'' idoc = invoice_preview_click ce idoc) \<and>
   \<not> list_ex is_parse_call (preview_data_click d) \<and>
   \<not> list_ex is_generate_call (preview_data_click d) \<and>
   \<not> list_ex is_parse_call (invoice_preview_click ce idoc) \<and>
   \<not> list_ex is_generate_call (invoice_preview_click ce idoc) \<and>
   checkin_previews ocs (d, srun) = (d, srun) \<and>
   invoice_previews ce ocs (idoc, srun) = (idoc, srun) \<and>
   fst (server_preview srun offset limit descending) = srun \<and>
   set (pv_rows (snd (server_preview srun offset limit descending))) \<subseteq> set (sv_rows srun) \<and>
   pv_total (snd (server_preview srun offset limit descending)) = length (sv_rows srun) \<and>
   pv_ready (snd (server_preview srun offset limit descending)) = length (filter ready (sv_rows srun)) \<and>
   mset (pv_rows (snd (server_preview srun 0 (length (sv_rows srun)) descending))) = mset (sv_rows srun) \<and>
   (sv_status srun = Draft \<and> sources_valid oc \<longrightarrow>
      sv_rows (snd (checkin_previews ocs (d, spec_server oc parse_source srun))) = normalizer_rows oc \<and>
      sv_rows (snd (invoice_previews ce ocs (idoc, spec_server oc parse_files srun))) = normalizer_rows oc) \<and>
   (fst (has_min_mapping sd) \<longrightarrow> list_ex is_parse_call (preview_click sce sre sd))"
proof -
  have f3: "checkin_click ''Preview Data'' d = preview_data_click d"
    by (simp add: checkin_click_def checkin_run_buttons_def add_preview_button_def)
  have f4: "''Preview'' \<in> set (invoice_run_buttons idoc) \<longrightarrow>
      invoice_click ce ''Preview'' idoc = invoice_preview_click ce idoc"
    by (simp add: invoice_click_def)
  have f11: "fst (server_preview srun offset limit descending) = srun"
    by (simp add: server_preview_def)
  have f12: "set (pv_rows (snd (server_preview srun offset limit descending))) \<subseteq> set (sv_rows srun)"
    using preview_rows_subset [of "sv_rows srun" offset limit descending]
    by (simp add: server_preview_def)
  have f13: "pv_total (snd (server_preview srun offset limit descending)) = length (sv_rows srun)"
    by (simp add: server_preview_def preview_def Let_def)
  have f14: "pv_ready (snd (server_preview srun offset limit descending)) = length (filter ready (sv_rows srun))"
    by (simp add: server_preview_def preview_def Let_def)
  have f15: "mset (pv_rows (snd (server_preview srun 0 (length (sv_rows srun)) descending))) = mset (sv_rows srun)"
    using preview_all_rows [of "sv_rows srun" descending] by (simp add: server_preview_def)
  have f16: "sv_status srun = Draft \<and> sources_valid oc \<longrightarrow>
      sv_rows (snd (checkin_previews ocs (d, spec_server oc parse_source srun))) = normalizer_rows oc \<and>
      sv_rows (snd (invoice_previews ce ocs (idoc, spec_server oc parse_files srun))) = normalizer_rows oc"
    by (simp add: checkin_previews_fixed invoice_previews_fixed spec_server_methods server_parse_draft)
  have f17: "fst (has_min_mapping sd) \<longrightarrow> list_ex is_parse_call (preview_click sce sre sd)"
    using preview_click_complete [of sd sce sre] method_kinds(2)
    by (auto simp: has_min_mapping_fst list_ex_iff)
  show ?thesis
    by (intro conjI)
      (rule preview_data_click_state invoice_preview_click_state f3 f4 preview_clicks_kinds
        checkin_previews_fixed invoice_previews_fixed f11 f12 f13 f14 f15 f16 f17)+
qed

theorem preview_is_read_only_witness:
  "checkin_previews [example_occasion, example_occasion, example_occasion]
      (example_checkin_run (Some ''Parsed'') (Some [Some ''/files/events.csv'']), example_server_run Parsed) =
     (example_checkin_run (Some ''Parsed'') (Some [Some ''/files/events.csv'']), example_server_run Parsed) \<and>
   invoice_previews None [example_occasion, example_occasion, example_occasion]
      (example_invoice_run (Some ''Parsed'') None, example_server_run Parsed) =
     (example_invoice_run (Some ''Parsed'') None, example_server_run Parsed) \<and>
   invoice_click None ''Preview'' (example_invoice_run (Some ''Parsed'') None) =
     [ServerCall get_preview_html, ShowDialog ''Purchase Invoices Preview''] \<and>
   pv_total (snd (server_preview (example_server_run Parsed) 0 200 True)) = 2 \<and>
   pv_ready (snd (server_preview (example_server_run Parsed) 0 200 True)) = 2 \<and>
   sv_rows (snd (checkin_previews [example_occasion, example_occasion, example_occasion]
      (example_checkin_run (Some ''Parsed'') (Some [Some ''/files/events.csv'']),
       spec_server example_occasion parse_source (example_server_run Draft)))) = example_rows3 \<and>
   list_ex is_parse_call (preview_click None None example_statement_run_ok)"
proof -
  let ?d = "example_checkin_run (Some ''Parsed'') (Some [Some ''/files/events.csv''])"
  let ?i = "example_invoice_run (Some ''Parsed'') None"
  let ?ocs = "[example_occasion, example_occasion, example_occasion]"
  note t = preview_is_read_only [where d = ?d and idoc = ?i and ce = None and ocs = ?ocs
      and srun = "example_server_run Parsed" and offset = 0 and limit = 200 and descending = True
      and oc = example_occasion and sd = example_statement_run_ok and sce = None and sre = None
      and server = "spec_server example_occasion" and reload = reload_checkin
      and assign = assign_checkin and run = "example_server_run Parsed"
      and iserver = "spec_server example_occasion" and ireload = reload_invoice
      and iassign = assign_invoice and irun = "example_server_run Parsed"]
  note v = preview_is_read_only [where d = ?d and idoc = ?i and ce = None and ocs = ?ocs
      and srun = "example_server_run Draft" and offset = 0 and limit = 200 and descending = True
      and oc = example_occasion and sd = example_statement_run_ok and sce = None and sre = None
      and server = "spec_server example_occasion" and reload = reload_checkin
      and assign = assign_checkin and run = "example_server_run Parsed"
      and iserver = "spec_server example_occasion" and ireload = reload_invoice
      and iassign = assign_invoice and irun = "example_server_run Parsed"]
  have a: "''Preview'' \<in> set (invoice_run_buttons ?i)"
    by (simp add: invoice_run_buttons_def example_invoice_run_def)
  have b: "invoice_preview_click None ?i = [ServerCall get_preview_html, ShowDialog ''Purchase Invoices Preview'']"
    by (simp add: invoice_preview_click_def)
  have c: "fst (has_min_mapping example_statement_run_ok)"
    by (simp add: example_statement_run_ok_def has_min_mapping_def missing_fields_def
        push_if_missing_def truthy_def)
  have n: "length (sv_rows (example_server_run Parsed)) = 2"
    "length (filter ready (sv_rows (example_server_run Parsed))) = 2"
    "sv_status (example_server_run Draft) = Draft" "sources_valid example_occasion"
    "normalizer_rows example_occasion = example_rows3"
    by (simp_all add: example_server_run_def example_rows_def example_occasion_def)
  from t v a b c n show ?thesis by simp
qed


section \<open>Generation: properties\<close>

lemma generate_rows_aborted_mono:
  "aborted res \<Longrightarrow> aborted (snd (generate_rows create store res xs))"
  by (induction xs arbitrary: store res) (auto split: create_outcome.splits)









end
